theory Spec2Isabelle
  imports Main "HOL-Library.Sublist"
begin

section \<open>Data model\<close>

text \<open>
  The repository holds several revisions of one single-file React application
  (\<^verbatim>\<open>src/index.tsx\<close>, \<^verbatim>\<open>src/unnamed/part_000\<close>, \<^verbatim>\<open>part_001\<close>, \<^verbatim>\<open>part_002\<close>).
  The embedding follows the revision of \<^verbatim>\<open>part_001\<close> (hybrid API layer, streaming
  completion, suggestions); where another revision differs in a way that matters, that
  revision's function is embedded next to it under a suffixed name:
  \<open>_idx\<close> for the first application in \<^verbatim>\<open>index.tsx\<close> (lines 1 to 880),
  \<open>_idx3\<close> for the third one in \<^verbatim>\<open>index.tsx\<close> (from line 2470),
  \<open>_p0\<close> for the first application in \<^verbatim>\<open>part_000\<close>.

  A JavaScript string is modelled as \<^typ>\<open>string\<close>; one \<^typ>\<open>char\<close> stands for one
  UTF-16 code unit, which is what \<^verbatim>\<open>length\<close>, \<^verbatim>\<open>substring\<close> and \<^verbatim>\<open>includes\<close> count.
  Numbers that are counts, sizes or timestamps are \<^typ>\<open>nat\<close>.
\<close>

datatype PlanType = free | pro | campus

record PlanLimit =
  maxDocs :: nat
  maxSizeMB :: nat
  label :: string

definition PLAN_LIMITS :: "PlanType \<Rightarrow> PlanLimit" where
  "PLAN_LIMITS p = (case p of
       free \<Rightarrow> \<lparr>maxDocs = 1, maxSizeMB = 5, label = ''Free Tier''\<rparr>
     | pro \<Rightarrow> \<lparr>maxDocs = 10, maxSizeMB = 20, label = ''Educator Pro''\<rparr>
     | campus \<Rightarrow> \<lparr>maxDocs = 999, maxSizeMB = 50, label = ''Campus Plan''\<rparr>)"

datatype OutputFormat = auto | report | table | concise | step

definition FORMAT_OPTIONS :: "(OutputFormat \<times> string) list" where
  "FORMAT_OPTIONS =
     [(auto, ''Answer naturally.''),
      (report, ''Professional report format with H1/H2.''),
      (table, ''Markdown table format.''),
      (concise, ''Brief summary (BLUF).''),
      (step, ''Numbered step-by-step guide.'')]"

definition DEFAULT_SYSTEM_INSTRUCTION :: string where
  "DEFAULT_SYSTEM_INSTRUCTION =
     ''ROLE: You are \"Edtech AI\", an elite pedagogical consultant.'' @ [CHR 0x0A] @
     ''CORE DIRECTIVES: Apply Bloom's Taxonomy, 5E Model, and UbD.''"

datatype DocType = PDF | DOCX | TXT

record DocumentFile =
  doc_id :: string
  user_id :: string
  doc_name :: string
  doc_type :: DocType
  content :: string
  doc_size :: nat
  created_at :: nat

datatype Action = quiz | rubric | chat

record Suggestion =
  sug_label :: string
  action :: Action
  prompt :: "string option"

datatype Role = RoleUser | RoleModel

text \<open>The optional fields of \<^verbatim>\<open>Message\<close> are options: \<open>None\<close> is the absent field.\<close>

record Message =
  msg_id :: string
  role :: Role
  msg_text :: string
  timestamp :: nat
  isError :: "bool option"
  suggestions :: "Suggestion list option"
  isThinking :: "bool option"

datatype EventType = class_ev | deadline | meeting

record CalendarEvent =
  ev_id :: string
  title :: string
  date :: string
  ev_type :: EventType

datatype UserRole = role_user | role_admin

record UserProfile =
  profile_id :: string
  email :: string
  full_name :: string
  profile_role :: UserRole
  plan :: PlanType

text \<open>The browser's \<^verbatim>\<open>File\<close>: name, MIME type, size in bytes.\<close>

record UploadFile =
  file_name :: string
  file_type :: string
  file_size :: nat

section \<open>String operations of the host language\<close>

text \<open>\<^verbatim>\<open>s.includes(sub)\<close>: \<open>sub\<close> occurs in \<open>s\<close> as a contiguous run.\<close>

fun str_includes :: "string \<Rightarrow> string \<Rightarrow> bool" where
  "str_includes [] sub = (sub = [])"
| "str_includes (c # cs) sub = (prefix sub (c # cs) \<or> str_includes cs sub)"

text \<open>\<^verbatim>\<open>s.endsWith(sub)\<close>.\<close>

definition endsWith :: "string \<Rightarrow> string \<Rightarrow> bool" where
  "endsWith s sub = suffix sub s"

text \<open>
  \<^verbatim>\<open>s.substring(a, b)\<close> for non-negative integer arguments: both are clamped to the
  length and swapped when \<open>a > b\<close>.
\<close>

definition substring :: "string \<Rightarrow> nat \<Rightarrow> nat \<Rightarrow> string" where
  "substring s a b =
     (let a' = min a (length s); b' = min b (length s);
          lo = min a' b'; hi = max a' b'
      in take (hi - lo) (drop lo s))"

text \<open>
  \<^verbatim>\<open>s.toLowerCase()\<close> on the code units a \<^typ>\<open>char\<close> holds (those below 256): the
  letters A to Z and the Latin-1 capitals U+00C0 to U+00DE, other than the sign U+00D7,
  move up by 32; every other code unit below 256 stays.
\<close>

definition lowerChar :: "char \<Rightarrow> char" where
  "lowerChar c =
     (let n = (of_char c :: nat)
      in if (65 \<le> n \<and> n \<le> 90) \<or> (192 \<le> n \<and> n \<le> 222 \<and> n \<noteq> 215)
         then char_of (n + 32) else c)"

definition toLowerCase :: "string \<Rightarrow> string" where
  "toLowerCase s = map lowerChar s"

section \<open>The hybrid API layer\<close>

text \<open>
  \<^verbatim>\<open>localStorage\<close> maps a key to a serialised value. \<^verbatim>\<open>JSON.stringify\<close> followed by
  \<^verbatim>\<open>JSON.parse\<close> is taken to give the value back, so the store holds the value itself,
  tagged with its kind.
\<close>

datatype Stored =
    SDocs "DocumentFile list"
  | SChat "Message list"
  | SEvents "CalendarEvent list"
  | SText string

text \<open>
  The remote store (Supabase) as the tables the API layer touches. \<open>supabase\<close> says
  whether a client exists (\<^verbatim>\<open>isSupabaseConfigured\<close>). The \<^verbatim>\<open>chats\<close> table holds rows of
  owner id and message list, \<^verbatim>\<open>events\<close> rows of owner id and event.
\<close>

record Backend =
  supabase :: bool
  localStorage :: "string \<rightharpoonup> Stored"
  documents :: "DocumentFile list"
  chats :: "(string \<times> Message list) list"
  events :: "(string \<times> CalendarEvent) list"
  system_settings :: "(string \<times> string) list"

text \<open>
  How one remote call behaves is an input of the model: it succeeds, it returns an
  \<^verbatim>\<open>error\<close> field, or it throws (rejects).
\<close>

datatype RemoteResult = Succeeds | ErrorReturned | Thrown

datatype ApiError = RemoteError

definition DOCS_PREFIX :: string where "DOCS_PREFIX = ''edtech_docs_v5_''"
definition CHAT_PREFIX :: string where "CHAT_PREFIX = ''edtech_chat_v5_''"
definition EVENTS_PREFIX :: string where "EVENTS_PREFIX = ''edtech_events_v5_''"
definition MASTER_PROMPT_KEY :: string where "MASTER_PROMPT_KEY = ''edtech_master_prompt''"

definition localDocs :: "Backend \<Rightarrow> string \<Rightarrow> DocumentFile list" where
  "localDocs be uid =
     (case localStorage be (DOCS_PREFIX @ uid) of Some (SDocs ds) \<Rightarrow> ds | _ \<Rightarrow> [])"

definition localChat :: "Backend \<Rightarrow> string \<Rightarrow> Message list" where
  "localChat be uid =
     (case localStorage be (CHAT_PREFIX @ uid) of Some (SChat ms) \<Rightarrow> ms | _ \<Rightarrow> [])"

definition localEvents :: "Backend \<Rightarrow> string \<Rightarrow> CalendarEvent list" where
  "localEvents be uid =
     (case localStorage be (EVENTS_PREFIX @ uid) of Some (SEvents es) \<Rightarrow> es | _ \<Rightarrow> [])"

text \<open>\<^verbatim>\<open>api.saveDoc\<close> of \<^verbatim>\<open>part_000\<close> and \<^verbatim>\<open>part_001\<close>: a remote failure is logged.\<close>

definition saveDoc :: "Backend \<Rightarrow> RemoteResult \<Rightarrow> DocumentFile \<Rightarrow> ApiError + Backend" where
  "saveDoc be r doc =
     (if \<not> supabase be then
        Inr (be\<lparr>localStorage := (localStorage be)
               (DOCS_PREFIX @ user_id doc \<mapsto> SDocs (localDocs be (user_id doc) @ [doc]))\<rparr>)
      else case r of
          Succeeds \<Rightarrow> Inr (be\<lparr>documents := documents be @ [doc]\<rparr>)
        | ErrorReturned \<Rightarrow> Inr be
        | Thrown \<Rightarrow> Inr be)"

text \<open>\<^verbatim>\<open>api.saveDoc\<close> of \<^verbatim>\<open>index.tsx\<close> (line 141): \<^verbatim>\<open>if (error) throw error\<close>.\<close>

definition saveDoc_idx :: "Backend \<Rightarrow> RemoteResult \<Rightarrow> DocumentFile \<Rightarrow> ApiError + Backend" where
  "saveDoc_idx be r doc =
     (if \<not> supabase be then
        Inr (be\<lparr>localStorage := (localStorage be)
               (DOCS_PREFIX @ user_id doc \<mapsto> SDocs (localDocs be (user_id doc) @ [doc]))\<rparr>)
      else case r of
          Succeeds \<Rightarrow> Inr (be\<lparr>documents := documents be @ [doc]\<rparr>)
        | ErrorReturned \<Rightarrow> Inl RemoteError
        | Thrown \<Rightarrow> Inl RemoteError)"

text \<open>
  \<^verbatim>\<open>.maybeSingle()\<close> and \<^verbatim>\<open>.single()\<close> on the rows a filter selects: the row when there
  is exactly one, no data otherwise.
\<close>

definition single :: "'a list \<Rightarrow> 'a option" where
  "single rows = (case rows of [x] \<Rightarrow> Some x | _ \<Rightarrow> None)"

definition chatRows :: "Backend \<Rightarrow> string \<Rightarrow> (string \<times> Message list) list" where
  "chatRows be uid = filter (\<lambda>row. fst row = uid) (chats be)"

text \<open>
  \<^verbatim>\<open>api.saveChat\<close> of \<^verbatim>\<open>part_000\<close> and \<^verbatim>\<open>part_001\<close>: select the owner's row, then
  update it or insert a new one; \<open>r1\<close> is the behaviour of the select, \<open>r2\<close> of the
  write. Every failure ends in the \<^verbatim>\<open>catch\<close> that logs it, or is ignored.
\<close>

definition saveChat ::
  "Backend \<Rightarrow> RemoteResult \<Rightarrow> RemoteResult \<Rightarrow> string \<Rightarrow> Message list \<Rightarrow> ApiError + Backend" where
  "saveChat be r1 r2 userId msgs =
     (if \<not> supabase be then
        Inr (be\<lparr>localStorage := (localStorage be)(CHAT_PREFIX @ userId \<mapsto> SChat msgs)\<rparr>)
      else if r1 = Thrown then Inr be
      else
        let data = (if r1 = Succeeds then single (chatRows be userId) else None) in
        if r2 \<noteq> Succeeds then Inr be
        else case data of
            Some row \<Rightarrow>
              Inr (be\<lparr>chats := map (\<lambda>c. if fst c = userId then (userId, msgs) else c) (chats be)\<rparr>)
          | None \<Rightarrow> Inr (be\<lparr>chats := chats be @ [(userId, msgs)]\<rparr>))"

text \<open>
  \<^verbatim>\<open>api.saveChat\<close> of \<^verbatim>\<open>index.tsx\<close> (line 165): one upsert on the owner id, whose
  \<^verbatim>\<open>error\<close> is read and dropped; nothing catches a rejection.
\<close>

definition saveChat_idx ::
  "Backend \<Rightarrow> RemoteResult \<Rightarrow> string \<Rightarrow> Message list \<Rightarrow> ApiError + Backend" where
  "saveChat_idx be r userId msgs =
     (if \<not> supabase be then
        Inr (be\<lparr>localStorage := (localStorage be)(CHAT_PREFIX @ userId \<mapsto> SChat msgs)\<rparr>)
      else case r of
          Succeeds \<Rightarrow>
            (if chatRows be userId = [] then Inr (be\<lparr>chats := chats be @ [(userId, msgs)]\<rparr>)
             else Inr (be\<lparr>chats := map (\<lambda>c. if fst c = userId then (userId, msgs) else c) (chats be)\<rparr>))
        | ErrorReturned \<Rightarrow> Inr be
        | Thrown \<Rightarrow> Inl RemoteError)"


text \<open>\<^verbatim>\<open>api.getEvents\<close> and \<^verbatim>\<open>api.saveEvent\<close>: the remote failure falls back to the local store.\<close>

definition getEvents :: "Backend \<Rightarrow> RemoteResult \<Rightarrow> string \<Rightarrow> ApiError + CalendarEvent list" where
  "getEvents be r userId =
     (if \<not> supabase be then Inr (localEvents be userId)
      else case r of
          Succeeds \<Rightarrow> Inr (map snd (filter (\<lambda>row. fst row = userId) (events be)))
        | ErrorReturned \<Rightarrow> Inr (localEvents be userId)
        | Thrown \<Rightarrow> Inr (localEvents be userId))"

definition saveEvent ::
  "Backend \<Rightarrow> RemoteResult \<Rightarrow> string \<Rightarrow> CalendarEvent \<Rightarrow> ApiError + Backend" where
  "saveEvent be r userId ev =
     (let pushLocal = be\<lparr>localStorage := (localStorage be)
                         (EVENTS_PREFIX @ userId \<mapsto> SEvents (localEvents be userId @ [ev]))\<rparr>
      in if \<not> supabase be then Inr pushLocal
         else case r of
             Succeeds \<Rightarrow> Inr (be\<lparr>events := events be @ [(userId, ev)]\<rparr>)
           | ErrorReturned \<Rightarrow> Inr pushLocal
           | Thrown \<Rightarrow> Inr pushLocal)"

definition settingRows :: "Backend \<Rightarrow> (string \<times> string) list" where
  "settingRows be = filter (\<lambda>row. fst row = ''master_prompt'') (system_settings be)"

text \<open>\<^verbatim>\<open>api.getMasterPrompt\<close>: an empty or missing value gives the default instruction.\<close>

definition getMasterPrompt :: "Backend \<Rightarrow> RemoteResult \<Rightarrow> ApiError + string" where
  "getMasterPrompt be r =
     (if \<not> supabase be then
        (case localStorage be MASTER_PROMPT_KEY of
            Some (SText s) \<Rightarrow> Inr (if s = [] then DEFAULT_SYSTEM_INSTRUCTION else s)
          | _ \<Rightarrow> Inr DEFAULT_SYSTEM_INSTRUCTION)
      else case r of
          Succeeds \<Rightarrow>
            (case single (settingRows be) of
                Some row \<Rightarrow> Inr (if snd row = [] then DEFAULT_SYSTEM_INSTRUCTION else snd row)
              | None \<Rightarrow> Inr DEFAULT_SYSTEM_INSTRUCTION)
        | ErrorReturned \<Rightarrow> Inr DEFAULT_SYSTEM_INSTRUCTION
        | Thrown \<Rightarrow> Inl RemoteError)"

text \<open>
  \<^verbatim>\<open>api.setMasterPrompt\<close> of \<^verbatim>\<open>part_000\<close> and \<^verbatim>\<open>part_001\<close>: select, then update or
  insert; a rejection is caught, logged and shown in an alert.
\<close>

definition setMasterPrompt ::
  "Backend \<Rightarrow> RemoteResult \<Rightarrow> RemoteResult \<Rightarrow> string \<Rightarrow> ApiError + Backend" where
  "setMasterPrompt be r1 r2 p =
     (if \<not> supabase be then
        Inr (be\<lparr>localStorage := (localStorage be)(MASTER_PROMPT_KEY \<mapsto> SText p)\<rparr>)
      else if r1 = Thrown then Inr be
      else
        let data = (if r1 = Succeeds then single (settingRows be) else None) in
        if r2 \<noteq> Succeeds then Inr be
        else case data of
            Some row \<Rightarrow>
              Inr (be\<lparr>system_settings :=
                     map (\<lambda>c. if fst c = ''master_prompt'' then (''master_prompt'', p) else c)
                       (system_settings be)\<rparr>)
          | None \<Rightarrow> Inr (be\<lparr>system_settings := system_settings be @ [(''master_prompt'', p)]\<rparr>))"

text \<open>\<^verbatim>\<open>api.setMasterPrompt\<close> of \<^verbatim>\<open>index.tsx\<close> (line 191): \<^verbatim>\<open>if (error) throw error\<close>.\<close>

definition setMasterPrompt_idx ::
  "Backend \<Rightarrow> RemoteResult \<Rightarrow> string \<Rightarrow> ApiError + Backend" where
  "setMasterPrompt_idx be r p =
     (if \<not> supabase be then
        Inr (be\<lparr>localStorage := (localStorage be)(MASTER_PROMPT_KEY \<mapsto> SText p)\<rparr>)
      else case r of
          Succeeds \<Rightarrow>
            (if settingRows be = [] then
               Inr (be\<lparr>system_settings := system_settings be @ [(''master_prompt'', p)]\<rparr>)
             else
               Inr (be\<lparr>system_settings :=
                      map (\<lambda>c. if fst c = ''master_prompt'' then (''master_prompt'', p) else c)
                        (system_settings be)\<rparr>))
        | ErrorReturned \<Rightarrow> Inl RemoteError
        | Thrown \<Rightarrow> Inl RemoteError)"


section \<open>Application state\<close>

datatype View = view_chat | view_calendar | view_dashboard

text \<open>The \<^verbatim>\<open>alert(...)\<close> calls of the upload handlers, with the value each one prints.\<close>

datatype Alert =
    PlanLimitReached nat
  | FileParseError
  | FileTooLargeFor string
  | DocLimitReachedFor string
  | FailedToParseDocument
  | FailedToReadFile

text \<open>
  A call of \<^verbatim>\<open>api.generateAI\<close> or \<^verbatim>\<open>api.generateAIStream\<close>: the prompt, the system
  instruction, the history \<^verbatim>\<open>hist\<close> and the thinking flag (the API key is left out).
\<close>

record CompletionRequest =
  req_prompt :: string
  req_system :: string
  req_hist :: "Message list"
  req_thinking :: bool

text \<open>
  The \<^verbatim>\<open>useState\<close> cells of \<^verbatim>\<open>App\<close> that the handlers read or write, the alerts shown
  so far, the backend, and the requests sent to the completion service so far.
  \<open>fileError\<close> and \<open>isProcessingFile\<close> exist in the revisions that have them.
\<close>

record AppState =
  messages :: "Message list"
  docs :: "DocumentFile list"
  activeDocId :: "string option"
  thinking :: bool
  view :: View
  modal_apiKey :: bool
  modal_pricing :: bool
  lessonCtx :: string
  fileError :: "string option"
  isProcessingFile :: bool
  alerts :: "Alert list"
  backend :: Backend
  requests :: "CompletionRequest list"

section \<open>Document upload\<close>

text \<open>
  What the three external extractors give on the chosen file; \<open>None\<close> is a thrown
  error, and \<open>extractError\<close> is the \<^verbatim>\<open>message\<close> of that error.
\<close>

record Extractors =
  extractTextFromPDF :: "string option"
  extractTextFromDOCX :: "string option"
  file_text :: "string option"
  extractError :: string

text \<open>
  \<^verbatim>\<open>handleFileUpload\<close> of \<^verbatim>\<open>part_001\<close> (line 953), the same handler text as
  \<^verbatim>\<open>index.tsx\<close> line 668: the document count is the only limit checked; \<open>newId\<close> and
  \<open>now\<close> are the results of \<^verbatim>\<open>crypto.randomUUID()\<close> and \<^verbatim>\<open>Date.now()\<close>, \<open>r\<close> the
  behaviour of the remote insert. \<^verbatim>\<open>api.saveDoc\<close> is not awaited; it is taken to finish
  within the handler.
\<close>

definition handleFileUpload ::
  "UserProfile option \<Rightarrow> (UploadFile \<times> Extractors) option \<Rightarrow> string \<Rightarrow> nat \<Rightarrow> RemoteResult
     \<Rightarrow> AppState \<Rightarrow> AppState" where
  "handleFileUpload usr fileOpt newId now r st =
     (case (fileOpt, usr) of
        (Some (file, ex), Some u) \<Rightarrow>
          let limit = maxDocs (PLAN_LIMITS (plan u)) in
          if length (docs st) \<ge> limit then
            st\<lparr>alerts := alerts st @ [PlanLimitReached limit], modal_pricing := True\<rparr>
          else
            (case (if file_type file = ''application/pdf'' then extractTextFromPDF ex
                   else if endsWith (file_name file) ''.docx'' then extractTextFromDOCX ex
                   else file_text ex) of
               None \<Rightarrow> st\<lparr>alerts := alerts st @ [FileParseError]\<rparr>
             | Some c \<Rightarrow>
                 let doc = \<lparr>doc_id = newId, user_id = profile_id u, doc_name = file_name file,
                            doc_type = (if str_includes (file_type file) ''pdf'' then PDF else DOCX),
                            content = c, doc_size = file_size file, created_at = now\<rparr>
                 in st\<lparr>docs := docs st @ [doc],
                       backend := (case saveDoc (backend st) r doc of
                                     Inr be \<Rightarrow> be | Inl e \<Rightarrow> backend st),
                       activeDocId := Some (doc_id doc),
                       view := view_chat\<rparr>)
      | _ \<Rightarrow> st)"

text \<open>
  \<^verbatim>\<open>handleFileUpload\<close> of \<^verbatim>\<open>part_000\<close> (line 735): the size limit is checked first,
  then the count; a plain file is recorded as \<open>TXT\<close>.
\<close>

definition handleFileUpload_p0 ::
  "UserProfile option \<Rightarrow> (UploadFile \<times> Extractors) option \<Rightarrow> string \<Rightarrow> nat \<Rightarrow> RemoteResult
     \<Rightarrow> AppState \<Rightarrow> AppState" where
  "handleFileUpload_p0 usr fileOpt newId now r st =
     (case (fileOpt, usr) of
        (Some (file, ex), Some u) \<Rightarrow>
          let limit = PLAN_LIMITS (plan u) in
          if file_size file > maxSizeMB limit * 1024 * 1024 then
            st\<lparr>alerts := alerts st @ [FileTooLargeFor (label limit)]\<rparr>
          else if length (docs st) \<ge> maxDocs limit then
            st\<lparr>alerts := alerts st @ [DocLimitReachedFor (label limit)]\<rparr>
          else
            (case (if str_includes (file_type file) ''pdf'' then extractTextFromPDF ex
                   else if endsWith (file_name file) ''docx'' then extractTextFromDOCX ex
                   else file_text ex) of
               None \<Rightarrow> st\<lparr>alerts := alerts st @ [FailedToParseDocument], isProcessingFile := False\<rparr>
             | Some c \<Rightarrow>
                 let newDoc = \<lparr>doc_id = newId, user_id = profile_id u, doc_name = file_name file,
                               doc_type = (if str_includes (file_type file) ''pdf'' then PDF
                                           else if endsWith (file_name file) ''docx'' then DOCX
                                           else TXT),
                               content = c, doc_size = file_size file, created_at = now\<rparr>
                 in st\<lparr>backend := (case saveDoc (backend st) r newDoc of
                                     Inr be \<Rightarrow> be | Inl e \<Rightarrow> backend st),
                       docs := docs st @ [newDoc],
                       isProcessingFile := False\<rparr>)
      | _ \<Rightarrow> st)"

text \<open>
  \<^verbatim>\<open>handleFileUpload\<close> of the third application in \<^verbatim>\<open>index.tsx\<close> (line 3040): both
  checks throw inside the \<^verbatim>\<open>try\<close>, the count first, and the message of the error
  becomes \<open>fileError\<close>.
  That revision stores documents in \<^verbatim>\<open>localStorage\<close> only (\<^verbatim>\<open>saveStoredDocs\<close>), its
  documents carry no owner field (left empty here), and its statistics counter is left
  out.
\<close>

definition handleFileUpload_idx3 ::
  "UserProfile option \<Rightarrow> (UploadFile \<times> Extractors) option \<Rightarrow> string \<Rightarrow> nat
     \<Rightarrow> AppState \<Rightarrow> AppState" where
  "handleFileUpload_idx3 currentUser fileOpt newId now st =
     (case (fileOpt, currentUser) of
        (Some (file, ex), Some u) \<Rightarrow>
          let p = PLAN_LIMITS (plan u) in
          if length (docs st) \<ge> maxDocs p then
            st\<lparr>fileError := Some ''Plan limit reached.'', isProcessingFile := False\<rparr>
          else if file_size file > maxSizeMB p * 1024 * 1024 then
            st\<lparr>fileError := Some ''File too large.'', isProcessingFile := False\<rparr>
          else
            (case (if endsWith (file_name file) ''.pdf'' then extractTextFromPDF ex
                   else if endsWith (file_name file) ''.docx'' then extractTextFromDOCX ex
                   else file_text ex) of
               None \<Rightarrow> st\<lparr>fileError := Some (extractError ex), isProcessingFile := False\<rparr>
             | Some c \<Rightarrow>
                 let newDoc = \<lparr>doc_id = newId, user_id = [], doc_name = file_name file,
                               doc_type = (if endsWith (file_name file) ''.pdf'' then PDF
                                           else if endsWith (file_name file) ''.docx'' then DOCX
                                           else TXT),
                               content = c, doc_size = file_size file, created_at = now\<rparr>;
                     updated = docs st @ [newDoc]
                 in st\<lparr>docs := updated,
                       backend := (backend st)\<lparr>localStorage := (localStorage (backend st))
                                     (DOCS_PREFIX @ profile_id u \<mapsto> SDocs updated)\<rparr>,
                       activeDocId := Some (doc_id newDoc),
                       fileError := None,
                       isProcessingFile := False\<rparr>)
      | _ \<Rightarrow> st)"

section \<open>Sending a message\<close>

text \<open>
  What the completion service does on one request. For the streaming call: the chunks
  it yields (\<^verbatim>\<open>chunk.text\<close>, \<open>None\<close> when undefined) and whether the iteration then
  ends or throws. For the single call: the response text (\<open>None\<close> when undefined), or a
  rejection.
\<close>

datatype StreamOutcome = Completes "string option list" | Fails "string option list"

datatype Completion = Responds "string option" | Rejects

record SendOpts =
  useActiveDoc :: "bool option"
  opt_type :: "string option"
  useDeepThink :: "bool option"

text \<open>
  Everything \<^verbatim>\<open>handleSendMessage\<close> gets from outside during one call: the API key
  (\<^verbatim>\<open>getApiKey()\<close>), the fresh ids and clock readings in the order they are drawn,
  the behaviour of each remote call and of the completion service.
\<close>

record SendEnv =
  apiKey :: "string option"
  userMsgId :: string
  aiMsgId :: string
  errMsgId :: string
  t_user :: nat
  t_placeholder :: nat
  t_final :: nat
  t_err :: nat
  save1 :: "RemoteResult \<times> RemoteResult"
  promptResult :: RemoteResult
  save2 :: "RemoteResult \<times> RemoteResult"
  stream :: StreamOutcome
  completion :: Completion

text \<open>Truthiness of a \<^verbatim>\<open>string | null\<close> value.\<close>

definition truthy :: "string option \<Rightarrow> bool" where
  "truthy v = (case v of None \<Rightarrow> False | Some s \<Rightarrow> s \<noteq> [])"

definition ERROR_TEXT :: string where
  "ERROR_TEXT = ''Error connecting to AI. Please check your API key.''"

text \<open>
  The system instruction of \<^verbatim>\<open>handleSendMessage\<close> (\<^verbatim>\<open>part_001\<close> lines 896 to 902): the
  master prompt, then the context block of the active document cut by
  \<^verbatim>\<open>substring(0, 30000)\<close>, then the format clause.
\<close>

definition docSegment :: "DocumentFile \<Rightarrow> string" where
  "docSegment d = substring (content d) 0 30000"

definition assembleSys ::
  "string \<Rightarrow> bool \<Rightarrow> DocumentFile option \<Rightarrow> OutputFormat \<Rightarrow> string" where
  "assembleSys master includeDoc activeDoc formatId =
     (let sys1 = (case activeDoc of
                    Some d \<Rightarrow>
                      if includeDoc then
                        master @ [CHR 0x0A, CHR 0x0A] @ ''=== CONTEXT: '' @ doc_name d @ '' ===''
                          @ [CHR 0x0A] @ docSegment d
                      else master
                  | None \<Rightarrow> master)
      in case find (\<lambda>f. fst f = formatId) FORMAT_OPTIONS of
           Some fmt \<Rightarrow> sys1 @ [CHR 0x0A, CHR 0x0A] @ ''FORMAT: '' @ snd fmt
         | None \<Rightarrow> sys1)"

text \<open>
  The stream loop (\<^verbatim>\<open>part_001\<close> lines 914 to 920): a non-empty chunk is added to
  \<open>aiText\<close> and the message whose id is \<open>aiMsgId\<close> gets the whole of \<open>aiText\<close> as its
  text. The result is the final \<open>aiText\<close> and the state.
\<close>

fun streamLoop :: "string \<Rightarrow> string option list \<Rightarrow> string \<Rightarrow> AppState \<Rightarrow> string \<times> AppState" where
  "streamLoop aid [] aiText st = (aiText, st)"
| "streamLoop aid (None # rest) aiText st = streamLoop aid rest aiText st"
| "streamLoop aid (Some chunkText # rest) aiText st =
     (if chunkText \<noteq> [] then
        let aiText' = aiText @ chunkText in
        streamLoop aid rest aiText'
          (st\<lparr>messages := map (\<lambda>m. if msg_id m = aid
                                     then m\<lparr>msg_text := aiText', isThinking := Some False\<rparr>
                                     else m) (messages st),
              thinking := False\<rparr>)
      else streamLoop aid rest aiText st)"

text \<open>
  The suggestion rules (\<^verbatim>\<open>part_001\<close> lines 923 to 932, \<^verbatim>\<open>index.tsx\<close> lines 640 to
  649).
\<close>

definition isLessonTurn :: "SendOpts \<Rightarrow> string \<Rightarrow> bool" where
  "isLessonTurn opts txt =
     (opt_type opts = Some ''lesson'' \<or> str_includes (toLowerCase txt) ''lesson plan'')"

definition isQuizTurn :: "SendOpts \<Rightarrow> string \<Rightarrow> bool" where
  "isQuizTurn opts txt =
     (opt_type opts = Some ''quiz'' \<or> str_includes (toLowerCase txt) ''quiz'')"

definition suggestionsFor :: "SendOpts \<Rightarrow> string \<Rightarrow> Suggestion list" where
  "suggestionsFor opts txt =
     (if isLessonTurn opts txt then
        [\<lparr>sug_label = ''Create Quiz for this'', action = quiz,
          prompt = Some ''Create a quiz based on this lesson plan.''\<rparr>,
         \<lparr>sug_label = ''Generate Rubric'', action = rubric, prompt = None\<rparr>]
      else if isQuizTurn opts txt then
        [\<lparr>sug_label = ''Explain Answer Key'', action = chat,
          prompt = Some ''Explain the answer key in detail.''\<rparr>]
      else [])"

definition saveChatOr :: "Backend \<Rightarrow> RemoteResult \<times> RemoteResult \<Rightarrow> string \<Rightarrow> Message list \<Rightarrow> Backend" where
  "saveChatOr be rs userId msgs =
     (case saveChat be (fst rs) (snd rs) userId msgs of Inr be' \<Rightarrow> be' | Inl e \<Rightarrow> be)"

text \<open>
  \<^verbatim>\<open>handleSendMessage\<close> of \<^verbatim>\<open>part_001\<close> (line 881), the streaming revision. The
  history given to \<^verbatim>\<open>api.generateAIStream\<close> is \<open>intermediateMsgs\<close>. A rejection of
  \<^verbatim>\<open>api.getMasterPrompt\<close> is outside the \<^verbatim>\<open>try\<close> and leaves the handler. The two
  calls of \<^verbatim>\<open>api.saveChat\<close> are not awaited; each is taken to finish before the step
  that follows it. The \<^verbatim>\<open>setMessages\<close> updates are applied in program order.
\<close>

definition handleSendMessage ::
  "UserProfile option \<Rightarrow> string \<Rightarrow> OutputFormat \<Rightarrow> SendOpts \<Rightarrow> SendEnv \<Rightarrow> AppState
     \<Rightarrow> ApiError + AppState" where
  "handleSendMessage usr txt formatId opts env st =
     (case usr of
        None \<Rightarrow> Inr st
      | Some u \<Rightarrow>
          if \<not> truthy (apiKey env) then Inr (st\<lparr>modal_apiKey := True\<rparr>)
          else
            let newUserMsg = \<lparr>msg_id = userMsgId env, role = RoleUser, msg_text = txt,
                              timestamp = t_user env, isError = None, suggestions = None,
                              isThinking = None\<rparr>;
                intermediateMsgs = messages st @ [newUserMsg];
                st1 = st\<lparr>messages := intermediateMsgs,
                         backend := saveChatOr (backend st) (save1 env) (profile_id u) intermediateMsgs,
                         view := view_chat, thinking := True\<rparr>;
                activeDoc = find (\<lambda>d. Some (doc_id d) = activeDocId st) (docs st);
                includeDoc = (case useActiveDoc opts of
                                Some b \<Rightarrow> b | None \<Rightarrow> truthy (activeDocId st))
            in (case getMasterPrompt (backend st1) (promptResult env) of
                 Inl e \<Rightarrow> Inl e
               | Inr master \<Rightarrow>
                   let sys = assembleSys master includeDoc activeDoc formatId;
                       st2 = st1\<lparr>messages := messages st1 @
                                 [\<lparr>msg_id = aiMsgId env, role = RoleModel, msg_text = [],
                                   timestamp = t_placeholder env, isError = None,
                                   suggestions = None, isThinking = Some True\<rparr>],
                               requests := requests st1 @
                                 [\<lparr>req_prompt = txt, req_system = sys,
                                   req_hist = intermediateMsgs,
                                   req_thinking = (case useDeepThink opts of
                                                     Some b \<Rightarrow> b | None \<Rightarrow> False)\<rparr>]\<rparr>
                   in (case stream env of
                        Completes chunks \<Rightarrow>
                          let aiText = fst (streamLoop (aiMsgId env) chunks [] st2);
                              st3 = snd (streamLoop (aiMsgId env) chunks [] st2);
                              finalMsgs = intermediateMsgs @
                                [\<lparr>msg_id = aiMsgId env, role = RoleModel, msg_text = aiText,
                                  timestamp = t_final env, isError = None,
                                  suggestions = Some (suggestionsFor opts txt),
                                  isThinking = None\<rparr>]
                          in Inr (st3\<lparr>lessonCtx := (if isLessonTurn opts txt then aiText
                                                      else lessonCtx st3),
                                      messages := finalMsgs,
                                      backend := saveChatOr (backend st3) (save2 env)
                                                   (profile_id u) finalMsgs,
                                      thinking := False\<rparr>)
                      | Fails chunks \<Rightarrow>
                          let st3 = snd (streamLoop (aiMsgId env) chunks [] st2)
                          in Inr (st3\<lparr>messages := messages st3 @
                                        [\<lparr>msg_id = errMsgId env, role = RoleModel,
                                          msg_text = ERROR_TEXT, timestamp = t_err env,
                                          isError = Some True, suggestions = None,
                                          isThinking = None\<rparr>],
                                      thinking := False\<rparr>))))"

definition saveChatOr_idx :: "Backend \<Rightarrow> RemoteResult \<Rightarrow> string \<Rightarrow> Message list \<Rightarrow> Backend" where
  "saveChatOr_idx be r userId msgs =
     (case saveChat_idx be r userId msgs of Inr be' \<Rightarrow> be' | Inl e \<Rightarrow> be)"

text \<open>
  \<^verbatim>\<open>handleSendMessage\<close> of \<^verbatim>\<open>index.tsx\<close> (line 614), one completion call. The history
  given to \<^verbatim>\<open>api.generateAI\<close> is \<open>messages\<close>, the state before the new user message;
  \<^verbatim>\<open>response.text || "No response generated."\<close> is the answer.
\<close>

definition handleSendMessage_idx ::
  "UserProfile option \<Rightarrow> string \<Rightarrow> OutputFormat \<Rightarrow> SendOpts \<Rightarrow> SendEnv \<Rightarrow> AppState
     \<Rightarrow> ApiError + AppState" where
  "handleSendMessage_idx usr txt formatId opts env st =
     (case usr of
        None \<Rightarrow> Inr st
      | Some u \<Rightarrow>
          if \<not> truthy (apiKey env) then Inr (st\<lparr>modal_apiKey := True\<rparr>)
          else
            let newUserMsg = \<lparr>msg_id = userMsgId env, role = RoleUser, msg_text = txt,
                              timestamp = t_user env, isError = None, suggestions = None,
                              isThinking = None\<rparr>;
                updatedMsgs = messages st @ [newUserMsg];
                st1 = st\<lparr>messages := updatedMsgs,
                         backend := saveChatOr_idx (backend st) (fst (save1 env)) (profile_id u)
                                      updatedMsgs,
                         thinking := True, view := view_chat\<rparr>;
                activeDoc = find (\<lambda>d. Some (doc_id d) = activeDocId st) (docs st);
                includeDoc = (case useActiveDoc opts of
                                Some b \<Rightarrow> b | None \<Rightarrow> truthy (activeDocId st))
            in (case getMasterPrompt (backend st1) (promptResult env) of
                 Inl e \<Rightarrow> Inl e
               | Inr master \<Rightarrow>
                   let sys = assembleSys master includeDoc activeDoc formatId;
                       st2 = st1\<lparr>requests := requests st1 @
                                 [\<lparr>req_prompt = txt, req_system = sys,
                                   req_hist = messages st, req_thinking = False\<rparr>]\<rparr>
                   in (case completion env of
                        Responds res \<Rightarrow>
                          let resText = (case res of
                                           Some t \<Rightarrow> if t \<noteq> [] then t
                                                     else ''No response generated.''
                                         | None \<Rightarrow> ''No response generated.'');
                              aiMsg = \<lparr>msg_id = aiMsgId env, role = RoleModel, msg_text = resText,
                                       timestamp = t_final env, isError = None,
                                       suggestions = Some (suggestionsFor opts txt),
                                       isThinking = None\<rparr>;
                              finalMsgs = updatedMsgs @ [aiMsg]
                          in Inr (st2\<lparr>lessonCtx := (if isLessonTurn opts txt then resText
                                                      else lessonCtx st2),
                                      messages := finalMsgs,
                                      backend := saveChatOr_idx (backend st2) (fst (save2 env))
                                                   (profile_id u) finalMsgs,
                                      thinking := False\<rparr>)
                      | Rejects \<Rightarrow>
                          Inr (st2\<lparr>messages := messages st2 @
                                     [\<lparr>msg_id = errMsgId env, role = RoleModel,
                                       msg_text = ERROR_TEXT, timestamp = t_err env,
                                       isError = Some True, suggestions = None,
                                       isThinking = None\<rparr>],
                                   thinking := False\<rparr>))))"

section \<open>The streaming handler of \<^verbatim>\<open>part_000\<close>\<close>

text \<open>Whether \<^verbatim>\<open>input.trim()\<close> is empty: every code unit is white space.\<close>

definition isSpaceChar :: "char \<Rightarrow> bool" where
  "isSpaceChar c = ((of_char c :: nat) \<in> {9, 10, 11, 12, 13, 32, 160})"

definition isBlank :: "string \<Rightarrow> bool" where
  "isBlank s = list_all isSpaceChar s"

definition ERROR_TEXT_p0 :: string where
  "ERROR_TEXT_p0 = ''Error generating response. Check API Key.''"

text \<open>
  The stream loop of \<^verbatim>\<open>handleSend\<close> (\<^verbatim>\<open>part_000\<close> lines 718 to 721): every chunk is
  added, an undefined one as the text \<^verbatim>\<open>undefined\<close>.
\<close>

fun streamLoop_p0 :: "string \<Rightarrow> string option list \<Rightarrow> string \<Rightarrow> AppState \<Rightarrow> string \<times> AppState" where
  "streamLoop_p0 bid [] fullResponse st = (fullResponse, st)"
| "streamLoop_p0 bid (chunk # rest) fullResponse st =
     (let fullResponse' = fullResponse @ (case chunk of Some t \<Rightarrow> t | None \<Rightarrow> ''undefined'') in
      streamLoop_p0 bid rest fullResponse'
        (st\<lparr>messages := map (\<lambda>m. if msg_id m = bid
                                   then m\<lparr>msg_text := fullResponse', isThinking := Some False\<rparr>
                                   else m) (messages st)\<rparr>))"

text \<open>
  \<^verbatim>\<open>handleSend\<close> of \<^verbatim>\<open>part_000\<close> (line 675) after the attached file has been read:
  \<open>userText\<close> is the text of the new user message. The history given to
  \<^verbatim>\<open>api.generateAIStream\<close> is \<open>chat\<close>, the state before the new message, and the
  transcript is saved only after the stream has ended. The cells \<^verbatim>\<open>chat\<close>,
  \<^verbatim>\<open>streaming\<close> and \<^verbatim>\<open>showApiKey\<close> of that revision are the fields \<open>messages\<close>,
  \<open>thinking\<close> and \<open>modal_apiKey\<close>.
\<close>

definition handleSend_p0_turn ::
  "UserProfile \<Rightarrow> string \<Rightarrow> OutputFormat \<Rightarrow> bool \<Rightarrow> SendEnv \<Rightarrow> AppState \<Rightarrow> ApiError + AppState" where
  "handleSend_p0_turn u userText outputFormat useThinking env st =
     (let newUserMsg = \<lparr>msg_id = userMsgId env, role = RoleUser, msg_text = userText,
                        timestamp = t_user env, isError = None, suggestions = None,
                        isThinking = None\<rparr>;
          newChat = messages st @ [newUserMsg];
          st1 = st\<lparr>messages := newChat, thinking := True\<rparr>;
          formatInst = (case find (\<lambda>f. fst f = outputFormat) FORMAT_OPTIONS of
                          Some fmt \<Rightarrow> snd fmt | None \<Rightarrow> [])
      in (case getMasterPrompt (backend st1) (promptResult env) of
           Inl e \<Rightarrow> Inl e
         | Inr masterPrompt \<Rightarrow>
             let systemInstruction = masterPrompt @ [CHR 0x0A] @ ''Format Requirement: '' @ formatInst;
                 st2 = st1\<lparr>messages := messages st1 @
                           [\<lparr>msg_id = aiMsgId env, role = RoleModel, msg_text = [],
                             timestamp = t_placeholder env, isError = None,
                             suggestions = None, isThinking = Some useThinking\<rparr>],
                         requests := requests st1 @
                           [\<lparr>req_prompt = userText, req_system = systemInstruction,
                             req_hist = messages st, req_thinking = useThinking\<rparr>]\<rparr>
             in (case stream env of
                  Completes chunks \<Rightarrow>
                    let fullResponse = fst (streamLoop_p0 (aiMsgId env) chunks [] st2);
                        st3 = snd (streamLoop_p0 (aiMsgId env) chunks [] st2);
                        finalChat = newChat @
                          [\<lparr>msg_id = aiMsgId env, role = RoleModel, msg_text = fullResponse,
                            timestamp = t_final env, isError = None, suggestions = None,
                            isThinking = None\<rparr>]
                    in Inr (st3\<lparr>backend := saveChatOr (backend st3) (save2 env)
                                             (profile_id u) finalChat,
                                messages := finalChat,
                                thinking := False\<rparr>)
                | Fails chunks \<Rightarrow>
                    let st3 = snd (streamLoop_p0 (aiMsgId env) chunks [] st2)
                    in Inr (st3\<lparr>messages := messages st3 @
                                  [\<lparr>msg_id = errMsgId env, role = RoleModel,
                                    msg_text = ERROR_TEXT_p0, timestamp = t_err env,
                                    isError = Some True, suggestions = None,
                                    isThinking = None\<rparr>],
                                thinking := False\<rparr>))))"

text \<open>
  \<^verbatim>\<open>handleSend\<close> of \<^verbatim>\<open>part_000\<close>: the guards, and the attached file whose first 10000
  code units are added to the user message.
\<close>

definition handleSend_p0 ::
  "UserProfile option \<Rightarrow> string \<Rightarrow> (UploadFile \<times> Extractors) option \<Rightarrow> OutputFormat \<Rightarrow> bool
     \<Rightarrow> SendEnv \<Rightarrow> AppState \<Rightarrow> ApiError + AppState" where
  "handleSend_p0 usr input fileToUpload outputFormat useThinking env st =
     (if isBlank input \<and> fileToUpload = None then Inr st
      else (case usr of
          None \<Rightarrow> Inr st
        | Some u \<Rightarrow>
            if \<not> truthy (apiKey env) then Inr (st\<lparr>modal_apiKey := True\<rparr>)
            else (case fileToUpload of
                None \<Rightarrow> handleSend_p0_turn u input outputFormat useThinking env st
              | Some (file, ex) \<Rightarrow>
                  (case (if str_includes (file_type file) ''pdf'' then extractTextFromPDF ex
                         else if endsWith (file_name file) ''docx'' then extractTextFromDOCX ex
                         else file_text ex) of
                     None \<Rightarrow> Inr (st\<lparr>alerts := alerts st @ [FailedToReadFile],
                                     isProcessingFile := False\<rparr>)
                   | Some contextContent \<Rightarrow>
                       handleSend_p0_turn u
                         (input @ [CHR 0x0A, CHR 0x0A] @ ''[Attached File Content: ''
                            @ file_name file @ '']'' @ [CHR 0x0A]
                            @ substring contextContent 0 10000 @ ''...'')
                         outputFormat useThinking env (st\<lparr>isProcessingFile := False\<rparr>)))))"

section \<open>Notions used in the statements\<close>

text \<open>The chunks of a stream in arrival order, joined, as each loop adds them.\<close>

definition joined :: "string option list \<Rightarrow> string" where
  "joined chunks = concat (map (\<lambda>c. case c of Some t \<Rightarrow> t | None \<Rightarrow> []) chunks)"

definition joined_p0 :: "string option list \<Rightarrow> string" where
  "joined_p0 chunks = concat (map (\<lambda>c. case c of Some t \<Rightarrow> t | None \<Rightarrow> ''undefined'') chunks)"

text \<open>The update that one step of the stream loops applies to the message list.\<close>

definition setText :: "string \<Rightarrow> string \<Rightarrow> Message list \<Rightarrow> Message list" where
  "setText aid t ms =
     map (\<lambda>m. if msg_id m = aid then m\<lparr>msg_text := t, isThinking := Some False\<rparr> else m) ms"


definition flagged :: "Message \<Rightarrow> bool" where
  "flagged m = (isError m = Some True)"

text \<open>The messages a send handler builds: the user turn, the placeholder, the error.\<close>

definition userMessage :: "SendEnv \<Rightarrow> string \<Rightarrow> Message" where
  "userMessage env txt =
     \<lparr>msg_id = userMsgId env, role = RoleUser, msg_text = txt, timestamp = t_user env,
      isError = None, suggestions = None, isThinking = None\<rparr>"

definition placeholder :: "SendEnv \<Rightarrow> bool \<Rightarrow> Message" where
  "placeholder env th =
     \<lparr>msg_id = aiMsgId env, role = RoleModel, msg_text = [], timestamp = t_placeholder env,
      isError = None, suggestions = None, isThinking = Some th\<rparr>"

definition errorMessage :: "SendEnv \<Rightarrow> string \<Rightarrow> Message" where
  "errorMessage env t =
     \<lparr>msg_id = errMsgId env, role = RoleModel, msg_text = t, timestamp = t_err env,
      isError = Some True, suggestions = None, isThinking = None\<rparr>"



section \<open>Concrete inputs\<close>

definition ex_user :: UserProfile where
  "ex_user = \<lparr>profile_id = ''u1'', email = ''t@school.org'', full_name = ''Teacher'',
               profile_role = role_user, plan = free\<rparr>"

definition ex_local :: Backend where
  "ex_local = \<lparr>supabase = False, localStorage = Map.empty, documents = [], chats = [],
                events = [], system_settings = []\<rparr>"

definition ex_remote :: Backend where
  "ex_remote = \<lparr>supabase = True, localStorage = Map.empty, documents = [], chats = [],
                 events = [], system_settings = []\<rparr>"

definition ex_state :: AppState where
  "ex_state = \<lparr>messages = [], docs = [], activeDocId = None, thinking = False,
                view = view_dashboard, modal_apiKey = False, modal_pricing = False,
                lessonCtx = [], fileError = None, isProcessingFile = False, alerts = [],
                backend = ex_local, requests = []\<rparr>"

definition ex_doc :: DocumentFile where
  "ex_doc = \<lparr>doc_id = ''d1'', user_id = ''u1'', doc_name = ''syllabus.pdf'', doc_type = PDF,
              content = ''Week 1: fractions'', doc_size = 2048, created_at = 1\<rparr>"

definition ex_txt_file :: UploadFile where
  "ex_txt_file = \<lparr>file_name = ''notes.txt'', file_type = ''text/plain'', file_size = 120\<rparr>"

definition ex_big_file :: UploadFile where
  "ex_big_file = \<lparr>file_name = ''notes.txt'', file_type = ''text/plain'',
                   file_size = 6 * 1024 * 1024\<rparr>"

definition ex_extractors :: Extractors where
  "ex_extractors = \<lparr>extractTextFromPDF = Some ''pdf text'',
                     extractTextFromDOCX = Some ''docx text'',
                     file_text = Some ''plain text'',
                     extractError = ''Unsupported file''\<rparr>"

definition ex_msg :: Message where
  "ex_msg = \<lparr>msg_id = ''m1'', role = RoleUser, msg_text = ''hi'', timestamp = 1,
              isError = None, suggestions = None, isThinking = None\<rparr>"

definition ex_event :: CalendarEvent where
  "ex_event = \<lparr>ev_id = ''e1'', title = ''Algebra'', date = ''2025-01-10'', ev_type = class_ev\<rparr>"

definition ex_opts :: SendOpts where
  "ex_opts = \<lparr>useActiveDoc = None, opt_type = None, useDeepThink = None\<rparr>"

definition ex_env :: SendEnv where
  "ex_env = \<lparr>apiKey = Some ''key'', userMsgId = ''m1'', aiMsgId = ''m2'', errMsgId = ''m3'',
              t_user = 1, t_placeholder = 2, t_final = 3, t_err = 4,
              save1 = (Succeeds, Succeeds), promptResult = Succeeds,
              save2 = (Succeeds, Succeeds),
              stream = Fails [Some ''Hello'', Some '' world''],
              completion = Rejects\<rparr>"

definition ex_env2 :: SendEnv where
  "ex_env2 = \<lparr>apiKey = Some ''key'', userMsgId = ''m4'', aiMsgId = ''m5'', errMsgId = ''m6'',
               t_user = 5, t_placeholder = 6, t_final = 7, t_err = 8,
               save1 = (Succeeds, Succeeds), promptResult = Succeeds,
               save2 = (Succeeds, Succeeds),
               stream = Completes [Some ''A fraction '', Some ''is a part.''],
               completion = Responds (Some ''A fraction is a part.'')\<rparr>"

definition ex_lesson_opts :: SendOpts where
  "ex_lesson_opts = \<lparr>useActiveDoc = None, opt_type = Some ''lesson'', useDeepThink = None\<rparr>"

section \<open>Facts about the API layer\<close>

lemmas ex_defs = ex_user_def ex_local_def ex_remote_def ex_state_def ex_doc_def
  ex_txt_file_def ex_big_file_def ex_extractors_def ex_msg_def ex_event_def ex_opts_def
  ex_env_def ex_env2_def ex_lesson_opts_def

lemma saveDoc_Inr:
  "saveDoc be r d = Inr (case saveDoc be r d of Inr b \<Rightarrow> b | Inl e \<Rightarrow> be)"
  by (cases r) (simp_all add: saveDoc_def)

section \<open>Quota checks of the upload handlers\<close>

text \<open>
  Claim C3 (amended). The order of the two checks depends on the revision. For every
  plan, stored-document count and file size that violate both limits: the handler of
  \<^verbatim>\<open>index.tsx\<close> line 3040, which checks the count and then the size, reports the count
  (\<^verbatim>\<open>Plan limit reached.\<close>); the handler of \<^verbatim>\<open>part_001\<close> line 953 and \<^verbatim>\<open>index.tsx\<close> line 668,
  which checks the count only, reports the count; the handler of \<^verbatim>\<open>part_000\<close> line 735
  checks the size first and reports the size (\<^verbatim>\<open>File too large\<close>).
\<close>

theorem upload_check_order_by_revision:
  assumes cnt: "length (docs st) \<ge> maxDocs (PLAN_LIMITS (plan u))"
      and sz: "file_size file > maxSizeMB (PLAN_LIMITS (plan u)) * 1024 * 1024"
  shows "fileError (handleFileUpload_idx3 (Some u) (Some (file, ex)) newId now st)
           = Some ''Plan limit reached.''
       \<and> alerts (handleFileUpload (Some u) (Some (file, ex)) newId now r st)
           = alerts st @ [PlanLimitReached (maxDocs (PLAN_LIMITS (plan u)))]
       \<and> alerts (handleFileUpload_p0 (Some u) (Some (file, ex)) newId now r st)
           = alerts st @ [FileTooLargeFor (label (PLAN_LIMITS (plan u)))]"
  using cnt sz
  by (simp add: handleFileUpload_idx3_def handleFileUpload_def handleFileUpload_p0_def Let_def)

theorem upload_check_order_by_revision_witness:
  "fileError (handleFileUpload_idx3 (Some ex_user) (Some (ex_big_file, ex_extractors)) ''d2'' 5
              (ex_state\<lparr>docs := [ex_doc]\<rparr>)) = Some ''Plan limit reached.''
   \<and> alerts (handleFileUpload (Some ex_user) (Some (ex_big_file, ex_extractors)) ''d2'' 5
              Succeeds (ex_state\<lparr>docs := [ex_doc]\<rparr>)) = [PlanLimitReached 1]
   \<and> alerts (handleFileUpload_p0 (Some ex_user) (Some (ex_big_file, ex_extractors)) ''d2'' 5
              Succeeds (ex_state\<lparr>docs := [ex_doc]\<rparr>)) = [FileTooLargeFor ''Free Tier'']"
proof -
  have a: "length (docs (ex_state\<lparr>docs := [ex_doc]\<rparr>)) \<ge> maxDocs (PLAN_LIMITS (plan ex_user))"
    by (simp add: ex_user_def PLAN_LIMITS_def)
  have b: "file_size ex_big_file > maxSizeMB (PLAN_LIMITS (plan ex_user)) * 1024 * 1024"
    by (simp add: ex_user_def ex_big_file_def PLAN_LIMITS_def)
  show ?thesis
    using upload_check_order_by_revision [OF a b, of ex_extractors "''d2''" 5 Succeeds]
    by (simp add: ex_user_def ex_state_def PLAN_LIMITS_def)
qed

text \<open>
  Claim C3 as stated fails in \<^verbatim>\<open>part_000\<close>: a free-plan user with one stored document
  (the limit) who picks a file of 6 MB (over the 5 MB limit) is told that the file is
  too large, not that the document limit is reached.
\<close>

theorem upload_size_checked_first_counterexample:
  "length (docs (ex_state\<lparr>docs := [ex_doc]\<rparr>)) \<ge> maxDocs (PLAN_LIMITS (plan ex_user))
   \<and> file_size ex_big_file > maxSizeMB (PLAN_LIMITS (plan ex_user)) * 1024 * 1024
   \<and> alerts (handleFileUpload_p0 (Some ex_user) (Some (ex_big_file, ex_extractors)) ''d2'' 5
              Succeeds (ex_state\<lparr>docs := [ex_doc]\<rparr>)) = [FileTooLargeFor ''Free Tier'']"
  by (simp add: handleFileUpload_p0_def ex_defs PLAN_LIMITS_def)

text \<open>
  Claim C4 (amended). The count check is \<^verbatim>\<open>docs.length >= limit\<close>: an upload is let
  through only while the stored count is strictly below the limit of the plan, and is
  denied for the count at every \<open>n \<ge> limit\<close>, so at \<open>n = limit\<close> and at \<open>n = limit + 1\<close>.
  In the handler of \<^verbatim>\<open>part_001\<close> and \<^verbatim>\<open>index.tsx\<close> line 668 this holds whatever the file
  size is; in the handler of \<^verbatim>\<open>part_000\<close>, which checks the size first, it holds for a
  file within the size limit. A denied upload leaves documents and backend unchanged;
  one that is let through adds one document when the extractors succeed.
\<close>

theorem upload_count_limit_strict:
  "(let lim = PLAN_LIMITS (plan u);
        st' = handleFileUpload (Some u) (Some (file, ex)) newId now r st;
        st0 = handleFileUpload_p0 (Some u) (Some (file, ex)) newId now r st;
        extracts = (extractTextFromPDF ex \<noteq> None \<and> extractTextFromDOCX ex \<noteq> None
                    \<and> file_text ex \<noteq> None);
        fits = (file_size file \<le> maxSizeMB lim * 1024 * 1024)
    in (length (docs st) < maxDocs lim \<and> extracts \<longrightarrow>
            length (docs st') = length (docs st) + 1 \<and> alerts st' = alerts st)
       \<and> (length (docs st) \<ge> maxDocs lim \<longrightarrow>
            alerts st' = alerts st @ [PlanLimitReached (maxDocs lim)] \<and> docs st' = docs st
            \<and> backend st' = backend st)
       \<and> (length (docs st) < maxDocs lim \<and> fits \<and> extracts \<longrightarrow>
            length (docs st0) = length (docs st) + 1 \<and> alerts st0 = alerts st)
       \<and> (length (docs st) \<ge> maxDocs lim \<and> fits \<longrightarrow>
            alerts st0 = alerts st @ [DocLimitReachedFor (label lim)] \<and> docs st0 = docs st
            \<and> backend st0 = backend st))"
  by (auto simp: handleFileUpload_def handleFileUpload_p0_def Let_def split: option.splits)

theorem upload_count_limit_strict_witness:
  "length (docs ex_state) < maxDocs (PLAN_LIMITS (plan ex_user))
   \<and> length (docs (handleFileUpload (Some ex_user) (Some (ex_txt_file, ex_extractors)) ''d2'' 5
                     Succeeds ex_state)) = 1
   \<and> length (docs (handleFileUpload_p0 (Some ex_user) (Some (ex_txt_file, ex_extractors)) ''d2'' 5
                     Succeeds ex_state)) = 1
   \<and> length (docs (ex_state\<lparr>docs := [ex_doc, ex_doc]\<rparr>)) = maxDocs (PLAN_LIMITS (plan ex_user)) + 1
   \<and> alerts (handleFileUpload (Some ex_user) (Some (ex_big_file, ex_extractors)) ''d2'' 5
               Succeeds (ex_state\<lparr>docs := [ex_doc, ex_doc]\<rparr>)) = [PlanLimitReached 1]
   \<and> alerts (handleFileUpload_p0 (Some ex_user) (Some (ex_txt_file, ex_extractors)) ''d2'' 5
               Succeeds (ex_state\<lparr>docs := [ex_doc, ex_doc]\<rparr>)) = [DocLimitReachedFor ''Free Tier'']"
  using upload_count_limit_strict
          [of ex_user ex_txt_file ex_extractors "''d2''" 5 Succeeds ex_state]
        upload_count_limit_strict
          [of ex_user ex_big_file ex_extractors "''d2''" 5 Succeeds "ex_state\<lparr>docs := [ex_doc, ex_doc]\<rparr>"]
        upload_count_limit_strict
          [of ex_user ex_txt_file ex_extractors "''d2''" 5 Succeeds "ex_state\<lparr>docs := [ex_doc, ex_doc]\<rparr>"]
  by (simp add: Let_def ex_user_def ex_state_def ex_extractors_def ex_txt_file_def PLAN_LIMITS_def)

text \<open>
  Claim C4 as stated fails at \<open>n = limit\<close>: a free-plan user (limit 1) with one stored
  document is denied, with the documents unchanged.
\<close>

theorem upload_at_limit_denied_counterexample:
  "length (docs (ex_state\<lparr>docs := [ex_doc]\<rparr>)) \<le> maxDocs (PLAN_LIMITS (plan ex_user))
   \<and> alerts (handleFileUpload (Some ex_user) (Some (ex_txt_file, ex_extractors)) ''d2'' 5
              Succeeds (ex_state\<lparr>docs := [ex_doc]\<rparr>)) = [PlanLimitReached 1]
   \<and> docs (handleFileUpload (Some ex_user) (Some (ex_txt_file, ex_extractors)) ''d2'' 5
              Succeeds (ex_state\<lparr>docs := [ex_doc]\<rparr>)) = [ex_doc]"
  by (simp add: handleFileUpload_def ex_defs PLAN_LIMITS_def)

section \<open>Source kind of an uploaded document\<close>

text \<open>
  Claim C10. In the upload handler of \<^verbatim>\<open>part_001\<close> line 953 (the same code as
  \<^verbatim>\<open>index.tsx\<close> line 668; the handler of \<^verbatim>\<open>part_002\<close> line 481 has no quota check
  and the same expression for the kind), whenever a file whose MIME type does
  not include \<^verbatim>\<open>pdf\<close> is accepted, the one document added to the list, which is also
  the one handed to \<^verbatim>\<open>api.saveDoc\<close>, has source kind \<open>DOCX\<close>, never \<open>TXT\<close>; a plain
  \<^verbatim>\<open>.txt\<close> upload is such a file.
\<close>

theorem upload_non_pdf_stored_as_docx:
  assumes nopdf: "\<not> str_includes (file_type file) ''pdf''"
      and added: "docs (handleFileUpload (Some u) (Some (file, ex)) newId now r st) \<noteq> docs st"
  shows "\<exists>d. docs (handleFileUpload (Some u) (Some (file, ex)) newId now r st) = docs st @ [d]
             \<and> doc_type d = DOCX \<and> doc_type d \<noteq> TXT \<and> doc_name d = file_name file
             \<and> saveDoc (backend st) r d
                 = Inr (backend (handleFileUpload (Some u) (Some (file, ex)) newId now r st))"
proof -
  let ?sel = "if file_type file = ''application/pdf'' then extractTextFromPDF ex
              else if endsWith (file_name file) ''.docx'' then extractTextFromDOCX ex
              else file_text ex"
  from added have below: "\<not> maxDocs (PLAN_LIMITS (plan u)) \<le> length (docs st)"
    by (auto simp: handleFileUpload_def Let_def)
  from added below obtain c where c: "?sel = Some c"
    by (cases ?sel) (auto simp: handleFileUpload_def Let_def)
  let ?d = "\<lparr>doc_id = newId, user_id = profile_id u, doc_name = file_name file,
             doc_type = DOCX, content = c, doc_size = file_size file, created_at = now\<rparr>"
  have "docs (handleFileUpload (Some u) (Some (file, ex)) newId now r st) = docs st @ [?d]"
    using below c nopdf by (simp add: handleFileUpload_def Let_def)
  moreover have "saveDoc (backend st) r ?d
                 = Inr (backend (handleFileUpload (Some u) (Some (file, ex)) newId now r st))"
    using below c nopdf saveDoc_Inr [of "backend st" r ?d]
    by (simp add: handleFileUpload_def Let_def)
  ultimately show ?thesis by (intro exI [of _ ?d]) simp
qed

theorem upload_non_pdf_stored_as_docx_witness:
  "\<not> str_includes (file_type ex_txt_file) ''pdf''
   \<and> file_name ex_txt_file = ''notes.txt''
   \<and> (\<exists>d. docs (handleFileUpload (Some ex_user) (Some (ex_txt_file, ex_extractors)) ''d2'' 5
                  Succeeds ex_state) = docs ex_state @ [d]
          \<and> doc_type d = DOCX \<and> doc_type d \<noteq> TXT \<and> doc_name d = file_name ex_txt_file
          \<and> saveDoc (backend ex_state) Succeeds d
              = Inr (backend (handleFileUpload (Some ex_user) (Some (ex_txt_file, ex_extractors))
                                ''d2'' 5 Succeeds ex_state)))"
proof -
  have a: "\<not> str_includes (file_type ex_txt_file) ''pdf''"
    by (simp add: ex_txt_file_def)
  have b: "docs (handleFileUpload (Some ex_user) (Some (ex_txt_file, ex_extractors)) ''d2'' 5
                   Succeeds ex_state) \<noteq> docs ex_state"
    by (simp add: handleFileUpload_def ex_defs PLAN_LIMITS_def endsWith_def suffix_to_prefix
          Let_def)
  show ?thesis
    using a upload_non_pdf_stored_as_docx [OF a b] by (simp add: ex_txt_file_def)
qed

section \<open>Facts about the stream loops\<close>

lemma setText_setText: "setText aid t (setText aid t' ms) = setText aid t ms"
  by (induction ms) (simp_all add: setText_def)

lemma setText_fresh: "aid \<notin> msg_id ` set ms \<Longrightarrow> setText aid t ms = ms"
  by (induction ms) (auto simp: setText_def)

lemma joined_simps:
  "joined [] = []"
  "joined (None # cs) = joined cs"
  "joined (Some t # cs) = t @ joined cs"
  by (simp_all add: joined_def)

lemma truthy_simps:
  "truthy None = False"
  "truthy (Some t) = (t \<noteq> [])"
  by (simp_all add: truthy_def)

lemma joined_no_truthy: "\<not> list_ex truthy chunks \<Longrightarrow> joined chunks = []"
proof (induction chunks)
  case Nil
  then show ?case by (simp add: joined_simps)
next
  case (Cons c cs)
  then show ?case by (cases c) (simp_all add: joined_simps truthy_simps)
qed

lemma streamLoop_step:
  "t \<noteq> [] \<Longrightarrow>
   streamLoop aid (Some t # cs) acc st =
     streamLoop aid cs (acc @ t)
       (st\<lparr>messages := setText aid (acc @ t) (messages st), thinking := False\<rparr>)"
  by (simp add: Let_def setText_def)

lemma streamLoop_eq:
  "streamLoop aid chunks acc st =
     (acc @ joined chunks,
      if list_ex truthy chunks
      then st\<lparr>messages := setText aid (acc @ joined chunks) (messages st), thinking := False\<rparr>
      else st)"
proof (induction chunks arbitrary: acc st)
  case Nil
  then show ?case by (simp add: joined_simps)
next
  case (Cons c cs)
  show ?case
  proof (cases c)
    case None
    then show ?thesis using Cons [of acc st] by (simp add: joined_simps truthy_simps)
  next
    case (Some t)
    show ?thesis
    proof (cases "t = []")
      case True
      then show ?thesis using Some Cons [of acc st] by (simp add: joined_simps truthy_simps)
    next
      case False
      have "streamLoop aid (c # cs) acc st =
              streamLoop aid cs (acc @ t)
                (st\<lparr>messages := setText aid (acc @ t) (messages st), thinking := False\<rparr>)"
        using Some False streamLoop_step [of t aid cs acc st] by simp
      also have "\<dots> = (acc @ joined (c # cs),
                        st\<lparr>messages := setText aid (acc @ joined (c # cs)) (messages st),
                            thinking := False\<rparr>)"
        using Some joined_no_truthy [of cs]
        by (cases "list_ex truthy cs") (simp_all add: Cons joined_simps setText_setText)
      finally show ?thesis using Some False by (simp add: truthy_simps)
    qed
  qed
qed

lemma streamLoop_p0_eq:
  "streamLoop_p0 bid chunks acc st =
     (acc @ joined_p0 chunks,
      if chunks \<noteq> []
      then st\<lparr>messages := setText bid (acc @ joined_p0 chunks) (messages st)\<rparr>
      else st)"
proof (induction chunks arbitrary: acc st)
  case Nil
  then show ?case by (simp add: joined_p0_def)
next
  case (Cons c cs)
  let ?t = "case c of Some t \<Rightarrow> t | None \<Rightarrow> ''undefined''"
  show ?case
    using Cons [of "acc @ ?t" "st\<lparr>messages := setText bid (acc @ ?t) (messages st)\<rparr>"]
    by (cases cs) (simp_all add: joined_p0_def Let_def setText_setText setText_def [symmetric])
qed

lemma substring_0: "substring s 0 n = take n s"
  by (simp add: substring_def Let_def min_def)

section \<open>Facts about the send handlers\<close>

lemma getMasterPrompt_Inr: "r \<noteq> Thrown \<Longrightarrow> \<exists>m. getMasterPrompt be r = Inr m"
  by (cases r) (auto simp: getMasterPrompt_def split: option.splits Stored.splits)

lemma handleSendMessage_Fails:
  assumes key: "truthy (apiKey env)" and pr: "promptResult env \<noteq> Thrown"
      and str: "stream env = Fails chunks"
  shows "\<exists>st'. handleSendMessage (Some u) txt fmt opts env st = Inr st'
           \<and> messages st' =
               (if list_ex truthy chunks
                then setText (aiMsgId env) (joined chunks)
                       (messages st @ [userMessage env txt, placeholder env True])
                else messages st @ [userMessage env txt, placeholder env True])
               @ [errorMessage env ERROR_TEXT]
           \<and> backend st' = saveChatOr (backend st) (save1 env) (profile_id u)
                              (messages st @ [userMessage env txt])
           \<and> (\<exists>sys th. requests st' = requests st @
                 [\<lparr>req_prompt = txt, req_system = sys,
                   req_hist = messages st @ [userMessage env txt], req_thinking = th\<rparr>])"
proof -
  obtain m where m: "getMasterPrompt (saveChatOr (backend st) (save1 env) (profile_id u)
                        (messages st @ [userMessage env txt])) (promptResult env) = Inr m"
    using getMasterPrompt_Inr [OF pr] by blast
  show ?thesis
    using key str m
    by (simp add: handleSendMessage_def Let_def streamLoop_eq userMessage_def placeholder_def
          errorMessage_def)
qed




lemma handleSend_p0_turn_eq:
  assumes pr: "promptResult env \<noteq> Thrown"
  shows "\<exists>st' sys. handleSend_p0_turn u txt fmt th env st = Inr st'
           \<and> messages st' =
               (case stream env of
                  Completes chunks \<Rightarrow>
                    messages st @
                      [userMessage env txt,
                       \<lparr>msg_id = aiMsgId env, role = RoleModel, msg_text = joined_p0 chunks,
                        timestamp = t_final env, isError = None, suggestions = None,
                        isThinking = None\<rparr>]
                | Fails chunks \<Rightarrow>
                    (if chunks \<noteq> []
                     then setText (aiMsgId env) (joined_p0 chunks)
                            (messages st @ [userMessage env txt, placeholder env th])
                     else messages st @ [userMessage env txt, placeholder env th])
                    @ [errorMessage env ERROR_TEXT_p0])
           \<and> (case stream env of
                 Completes chunks \<Rightarrow> True
               | Fails chunks \<Rightarrow> backend st' = backend st)
           \<and> requests st' = requests st @
                 [\<lparr>req_prompt = txt, req_system = sys, req_hist = messages st,
                   req_thinking = th\<rparr>]"
proof -
  obtain m where m: "getMasterPrompt (backend st) (promptResult env) = Inr m"
    using getMasterPrompt_Inr [OF pr] by blast
  show ?thesis
    using m
    by (cases "stream env")
       (simp_all add: handleSend_p0_turn_def Let_def streamLoop_p0_eq userMessage_def
          placeholder_def errorMessage_def)
qed

lemma handleSend_p0_no_file:
  "\<not> isBlank input \<Longrightarrow> truthy (apiKey env) \<Longrightarrow>
   handleSend_p0 (Some u) input None fmt th env st = handleSend_p0_turn u input fmt th env st"
  by (simp add: handleSend_p0_def)






lemma chat_key_not_prompt: "CHAT_PREFIX @ uid \<noteq> MASTER_PROMPT_KEY"
  by (simp add: CHAT_PREFIX_def MASTER_PROMPT_KEY_def)

lemma getMasterPrompt_saveChatOr:
  "getMasterPrompt (saveChatOr be rs uid msgs) r = getMasterPrompt be r"
  using chat_key_not_prompt [of uid]
  by (cases "fst rs"; cases "snd rs")
     (auto simp: saveChatOr_def saveChat_def getMasterPrompt_def settingRows_def Let_def
        split: option.splits)

lemma getMasterPrompt_saveChatOr_idx:
  "getMasterPrompt (saveChatOr_idx be r' uid msgs) r = getMasterPrompt be r"
  using chat_key_not_prompt [of uid]
  by (cases r')
     (auto simp: saveChatOr_idx_def saveChat_idx_def getMasterPrompt_def settingRows_def Let_def
        split: option.splits)

lemma handleSendMessage_sys:
  assumes key: "truthy (apiKey env)"
      and mp: "getMasterPrompt (backend st) (promptResult env) = Inr master"
  shows "\<exists>st' q. handleSendMessage (Some u) txt fmt opts env st = Inr st'
           \<and> requests st' = requests st @ [q]
           \<and> req_system q =
               assembleSys master
                 (case useActiveDoc opts of Some b \<Rightarrow> b | None \<Rightarrow> truthy (activeDocId st))
                 (find (\<lambda>d. Some (doc_id d) = activeDocId st) (docs st)) fmt"
  using key mp
  by (cases "stream env")
     (simp_all add: handleSendMessage_def Let_def streamLoop_eq getMasterPrompt_saveChatOr)

lemma handleSendMessage_idx_sys:
  assumes key: "truthy (apiKey env)"
      and mp: "getMasterPrompt (backend st) (promptResult env) = Inr master"
  shows "\<exists>st' q. handleSendMessage_idx (Some u) txt fmt opts env st = Inr st'
           \<and> requests st' = requests st @ [q]
           \<and> req_system q =
               assembleSys master
                 (case useActiveDoc opts of Some b \<Rightarrow> b | None \<Rightarrow> truthy (activeDocId st))
                 (find (\<lambda>d. Some (doc_id d) = activeDocId st) (docs st)) fmt"
  using key mp
  by (cases "completion env")
     (simp_all add: handleSendMessage_idx_def Let_def getMasterPrompt_saveChatOr_idx)




lemma setText_placeholder:
  assumes "aiMsgId env \<notin> msg_id ` set ms" and "aiMsgId env \<noteq> userMsgId env"
  shows "setText (aiMsgId env) t (ms @ [userMessage env x, placeholder env th])
           = ms @ [userMessage env x,
                   (placeholder env th)\<lparr>msg_text := t, isThinking := Some False\<rparr>]"
  using assms setText_fresh [of "aiMsgId env" ms t]
  by (simp add: setText_def userMessage_def placeholder_def)

lemma saveChat_local:
  "\<not> supabase be \<Longrightarrow>
   saveChat be r1 r2 uid msgs
     = Inr (be\<lparr>localStorage := (localStorage be)(CHAT_PREFIX @ uid \<mapsto> SChat msgs)\<rparr>)"
  by (simp add: saveChat_def)

lemmas eval_defs = handleSendMessage_def Let_def truthy_def saveChatOr_def saveChat_def
  getMasterPrompt_def MASTER_PROMPT_KEY_def CHAT_PREFIX_def assembleSys_def FORMAT_OPTIONS_def
  localChat_def

section \<open>Facts about the transcript table\<close>


lemma single_one: "single [x] = Some x"
  by (simp add: single_def)

section \<open>History sent to the completion service\<close>




section \<open>A stream that fails after some chunks\<close>

text \<open>
  Claim C2 (amended). If the completion stream yields some chunks and then throws,
  the \<^verbatim>\<open>catch\<close> block appends the error message and removes nothing: the conversation
  state ends with the user's turn, then the placeholder assistant message holding the
  text of the chunks received before the failure, then one new assistant message with
  \<^verbatim>\<open>isError = true\<close> and the fixed error text, which is the only flagged one among the
  three. The transcript saved during the turn holds the earlier messages and the user's
  turn only (\<^verbatim>\<open>part_001\<close>); in \<^verbatim>\<open>part_000\<close> nothing is saved. The ids drawn for the
  placeholder are taken to be fresh.
\<close>

theorem failed_stream_keeps_partial_message:
  assumes key: "truthy (apiKey env)" and pr: "promptResult env \<noteq> Thrown"
      and str: "stream env = Fails chunks"
      and fresh: "aiMsgId env \<notin> msg_id ` set (messages st)"
      and distinct: "aiMsgId env \<noteq> userMsgId env"
  shows "(\<exists>st'. handleSendMessage (Some u) txt fmt opts env st = Inr st'
            \<and> messages st' = messages st @
                 [userMessage env txt,
                  (placeholder env True)\<lparr>msg_text := joined chunks,
                                          isThinking := Some (\<not> list_ex truthy chunks)\<rparr>,
                  errorMessage env ERROR_TEXT]
            \<and> filter flagged (drop (length (messages st)) (messages st'))
                 = [errorMessage env ERROR_TEXT]
            \<and> backend st' = saveChatOr (backend st) (save1 env) (profile_id u)
                               (messages st @ [userMessage env txt])
            \<and> (\<not> supabase (backend st) \<longrightarrow>
                  localChat (backend st') (profile_id u) = messages st @ [userMessage env txt]))
       \<and> (\<not> isBlank txt \<longrightarrow>
            (\<exists>st'. handleSend_p0 (Some u) txt None fmt th env st = Inr st'
               \<and> messages st' = messages st @
                    [userMessage env txt,
                     (placeholder env th)\<lparr>msg_text := joined_p0 chunks,
                                           isThinking := Some (if chunks = [] then th else False)\<rparr>,
                     errorMessage env ERROR_TEXT_p0]
               \<and> backend st' = backend st))"
proof -
  obtain s1 where s1: "handleSendMessage (Some u) txt fmt opts env st = Inr s1"
      "messages s1 =
               (if list_ex truthy chunks
                then setText (aiMsgId env) (joined chunks)
                       (messages st @ [userMessage env txt, placeholder env True])
                else messages st @ [userMessage env txt, placeholder env True])
               @ [errorMessage env ERROR_TEXT]"
      "backend s1 = saveChatOr (backend st) (save1 env) (profile_id u)
                              (messages st @ [userMessage env txt])"
    using handleSendMessage_Fails [OF key pr str, of u "txt" fmt opts st] by blast
  have m1: "messages s1 = messages st @
                 [userMessage env txt,
                  (placeholder env True)\<lparr>msg_text := joined chunks,
                                          isThinking := Some (\<not> list_ex truthy chunks)\<rparr>,
                  errorMessage env ERROR_TEXT]"
    using s1(2) setText_placeholder [OF fresh distinct] joined_no_truthy [of chunks]
    by (simp add: placeholder_def)
  have f1: "filter flagged (drop (length (messages st)) (messages s1))
              = [errorMessage env ERROR_TEXT]"
    by (simp add: m1 flagged_def userMessage_def placeholder_def errorMessage_def)
  have l1: "localChat (backend s1) (profile_id u) = messages st @ [userMessage env txt]"
    if "\<not> supabase (backend st)"
    using that s1(3) by (simp add: saveChatOr_def saveChat_local localChat_def)
  obtain s2 where s2: "handleSend_p0_turn u txt fmt th env st = Inr s2"
      "messages s2 =
                    (if chunks \<noteq> []
                     then setText (aiMsgId env) (joined_p0 chunks)
                            (messages st @ [userMessage env txt, placeholder env th])
                     else messages st @ [userMessage env txt, placeholder env th])
                    @ [errorMessage env ERROR_TEXT_p0]"
      "backend s2 = backend st"
    using handleSend_p0_turn_eq [OF pr, of u "txt" fmt th st] str by auto
  have m2: "messages s2 = messages st @
                 [userMessage env txt,
                  (placeholder env th)\<lparr>msg_text := joined_p0 chunks,
                                        isThinking := Some (if chunks = [] then th else False)\<rparr>,
                  errorMessage env ERROR_TEXT_p0]"
    using s2(2) setText_placeholder [OF fresh distinct]
    by (simp add: placeholder_def joined_p0_def)
  have p0: "handleSend_p0 (Some u) txt None fmt th env st = Inr s2" if "\<not> isBlank txt"
    using s2(1) handleSend_p0_no_file [OF that key, of u fmt th st] by simp
  show ?thesis
    using s1(1) m1 f1 s1(3) l1 p0 m2 s2(3) by simp
qed

theorem failed_stream_keeps_partial_message_witness:
  "map msg_text (messages (projr
        (handleSendMessage (Some ex_user) ''Explain fractions'' auto ex_opts ex_env ex_state)))
       = [''Explain fractions'', ''Hello world'', ERROR_TEXT]
   \<and> \<not> supabase (backend ex_state)
   \<and> map msg_text (localChat (backend (projr
        (handleSendMessage (Some ex_user) ''Explain fractions'' auto ex_opts ex_env ex_state)))
          (profile_id ex_user))
       = [''Explain fractions'']
   \<and> \<not> isBlank ''Explain fractions''
   \<and> map msg_text (messages (projr
        (handleSend_p0 (Some ex_user) ''Explain fractions'' None auto False ex_env ex_state)))
       = [''Explain fractions'', ''Hello world'', ERROR_TEXT_p0]"
proof -
  have key: "truthy (apiKey ex_env)" by (simp add: ex_env_def truthy_def)
  have pr: "promptResult ex_env \<noteq> Thrown" by (simp add: ex_env_def)
  have str: "stream ex_env = Fails [Some ''Hello'', Some '' world'']" by (simp add: ex_env_def)
  have fresh: "aiMsgId ex_env \<notin> msg_id ` set (messages ex_state)" by (simp add: ex_state_def)
  have distinct: "aiMsgId ex_env \<noteq> userMsgId ex_env" by (simp add: ex_env_def)
  have nb: "\<not> isBlank ''Explain fractions''" by (simp add: isBlank_def isSpaceChar_def)
  show ?thesis
    using nb failed_stream_keeps_partial_message [OF key pr str fresh distinct, of ex_user "''Explain fractions''" auto ex_opts False]
    by (auto simp: userMessage_def placeholder_def errorMessage_def joined_def joined_p0_def
          ex_state_def ex_local_def)
qed

text \<open>
  Claim C2 as stated fails: for the chunks \<^verbatim>\<open>Hello\<close> and \<^verbatim>\<open> world\<close> followed by a
  failure, the state holds the partial assistant message \<^verbatim>\<open>Hello world\<close> between the
  user's turn and the error message.
\<close>

theorem failed_stream_partial_message_counterexample:
  "\<not> isl (handleSendMessage (Some ex_user) ''Explain fractions'' auto ex_opts ex_env ex_state)
   \<and> map role (messages (projr
        (handleSendMessage (Some ex_user) ''Explain fractions'' auto ex_opts ex_env ex_state)))
       = [RoleUser, RoleModel, RoleModel]
   \<and> map msg_text (messages (projr
        (handleSendMessage (Some ex_user) ''Explain fractions'' auto ex_opts ex_env ex_state)))
       = [''Explain fractions'', ''Hello world'', ERROR_TEXT]
   \<and> map isError (messages (projr
        (handleSendMessage (Some ex_user) ''Explain fractions'' auto ex_opts ex_env ex_state)))
       = [None, None, Some True]
   \<and> map msg_text (localChat (backend (projr
        (handleSendMessage (Some ex_user) ''Explain fractions'' auto ex_opts ex_env ex_state))) ''u1'')
       = [''Explain fractions'']"
  by (simp add: eval_defs ex_defs)

section \<open>Writes when the remote store fails\<close>

text \<open>
  Claim C5 (amended). With a remote store configured and a remote write call that
  fails (an error result or a rejection), the write operations of \<^verbatim>\<open>part_000\<close> and
  \<^verbatim>\<open>part_001\<close> never throw, but only \<^verbatim>\<open>saveEvent\<close> puts the write into the local store
  (a \<^verbatim>\<open>getEvents\<close> whose remote read fails too then returns it); \<^verbatim>\<open>saveDoc\<close>,
  \<^verbatim>\<open>saveChat\<close> and \<^verbatim>\<open>setMasterPrompt\<close> return with remote and local store as they
  were. When the select that \<^verbatim>\<open>saveChat\<close> and \<^verbatim>\<open>setMasterPrompt\<close> run first rejects,
  nothing is written; when it returns an error result and the insert succeeds, a new
  remote row is inserted. Whatever the remote calls do, these two return without an
  exception and without a write to the local store. In \<^verbatim>\<open>index.tsx\<close> (line 141 on)
  \<^verbatim>\<open>saveDoc\<close> and \<^verbatim>\<open>setMasterPrompt\<close> throw the remote error to the caller, and
  \<^verbatim>\<open>saveChat\<close> returns with the stores unchanged on an error result and lets a
  rejection through.
\<close>

theorem remote_failure_by_write_operation:
  assumes remote: "supabase be" and fails: "r \<noteq> Succeeds"
  shows "(\<exists>be'. saveEvent be r uid ev = Inr be'
             \<and> localEvents be' uid = localEvents be uid @ [ev]
             \<and> (r' \<noteq> Succeeds \<longrightarrow> getEvents be' r' uid = Inr (localEvents be uid @ [ev])))
       \<and> saveDoc be r doc = Inr be
       \<and> saveChat be r1 r uid msgs = Inr be
       \<and> saveChat be Thrown r2 uid msgs = Inr be
       \<and> saveChat be ErrorReturned Succeeds uid msgs = Inr (be\<lparr>chats := chats be @ [(uid, msgs)]\<rparr>)
       \<and> (\<exists>be'. saveChat be r1 r2 uid msgs = Inr be' \<and> localStorage be' = localStorage be)
       \<and> setMasterPrompt be r1 r p = Inr be
       \<and> setMasterPrompt be Thrown r2 p = Inr be
       \<and> setMasterPrompt be ErrorReturned Succeeds p
            = Inr (be\<lparr>system_settings := system_settings be @ [(''master_prompt'', p)]\<rparr>)
       \<and> (\<exists>be'. setMasterPrompt be r1 r2 p = Inr be' \<and> localStorage be' = localStorage be)
       \<and> saveDoc_idx be r doc = Inl RemoteError
       \<and> setMasterPrompt_idx be r p = Inl RemoteError
       \<and> saveChat_idx be r uid msgs = (if r = Thrown then Inl RemoteError else Inr be)"
proof -
  have ev: "\<exists>be'. saveEvent be r uid ev = Inr be'
             \<and> localEvents be' uid = localEvents be uid @ [ev]
             \<and> (r' \<noteq> Succeeds \<longrightarrow> getEvents be' r' uid = Inr (localEvents be uid @ [ev]))"
    using remote fails
    by (cases r; cases r') (simp_all add: saveEvent_def getEvents_def localEvents_def Let_def)
  have doc: "saveDoc be r doc = Inr be" "saveDoc_idx be r doc = Inl RemoteError"
    using remote fails by (cases r; simp add: saveDoc_def saveDoc_idx_def)+
  have chat: "saveChat be r1 r uid msgs = Inr be" "saveChat be Thrown r2 uid msgs = Inr be"
      "saveChat be ErrorReturned Succeeds uid msgs = Inr (be\<lparr>chats := chats be @ [(uid, msgs)]\<rparr>)"
      "saveChat_idx be r uid msgs = (if r = Thrown then Inl RemoteError else Inr be)"
    using remote fails by (cases r; simp add: saveChat_def saveChat_idx_def Let_def)+
  have chatl: "\<exists>be'. saveChat be r1 r2 uid msgs = Inr be' \<and> localStorage be' = localStorage be"
    using remote by (auto simp: saveChat_def Let_def split: option.splits)
  have mp: "setMasterPrompt be r1 r p = Inr be" "setMasterPrompt be Thrown r2 p = Inr be"
      "setMasterPrompt be ErrorReturned Succeeds p
            = Inr (be\<lparr>system_settings := system_settings be @ [(''master_prompt'', p)]\<rparr>)"
      "setMasterPrompt_idx be r p = Inl RemoteError"
    using remote fails by (cases r; simp add: setMasterPrompt_def setMasterPrompt_idx_def Let_def)+
  have mpl: "\<exists>be'. setMasterPrompt be r1 r2 p = Inr be' \<and> localStorage be' = localStorage be"
    using remote by (auto simp: setMasterPrompt_def Let_def split: option.splits)
  from ev doc chat chatl mp mpl show ?thesis by simp
qed

theorem remote_failure_by_write_operation_witness:
  "localEvents (projr (saveEvent ex_remote ErrorReturned ''u1'' ex_event)) ''u1'' = [ex_event]
   \<and> getEvents (projr (saveEvent ex_remote ErrorReturned ''u1'' ex_event)) Thrown ''u1''
       = Inr [ex_event]
   \<and> saveDoc ex_remote ErrorReturned ex_doc = Inr ex_remote
   \<and> saveChat ex_remote Succeeds ErrorReturned ''u1'' [ex_msg] = Inr ex_remote
   \<and> chats (projr (saveChat ex_remote ErrorReturned Succeeds ''u1'' [ex_msg])) = [(''u1'', [ex_msg])]
   \<and> setMasterPrompt ex_remote Succeeds ErrorReturned ''Be brief.'' = Inr ex_remote
   \<and> saveDoc_idx ex_remote ErrorReturned ex_doc = Inl RemoteError"
proof -
  have a: "supabase ex_remote" by (simp add: ex_remote_def)
  have b: "ErrorReturned \<noteq> Succeeds" by simp
  have c: "Thrown \<noteq> Succeeds" by simp
  show ?thesis
    using c remote_failure_by_write_operation [OF a b, of "''u1''" ex_event Thrown ex_doc Succeeds "[ex_msg]" Succeeds "''Be brief.''"]
    by (auto simp: localEvents_def ex_remote_def)
qed

text \<open>
  Claim C5 as stated fails for documents: with a remote store whose insert throws,
  \<^verbatim>\<open>saveDoc\<close> of \<^verbatim>\<open>part_000\<close> returns with the backend unchanged, so the document is
  in neither store; \<^verbatim>\<open>saveDoc\<close> of \<^verbatim>\<open>index.tsx\<close> throws on an error result.
\<close>

theorem saveDoc_failure_lost_counterexample:
  "supabase ex_remote
   \<and> saveDoc ex_remote Thrown ex_doc = Inr ex_remote
   \<and> localDocs ex_remote (user_id ex_doc) = []
   \<and> documents ex_remote = []
   \<and> saveDoc_idx ex_remote ErrorReturned ex_doc = Inl RemoteError"
  by (simp add: saveDoc_def saveDoc_idx_def localDocs_def ex_remote_def ex_doc_def)

section \<open>Applying the chunks of a stream\<close>

text \<open>
  Claim C6. Each step of the stream loop sets the text of the placeholder to the
  whole text accumulated so far. So the loop returns the chunks joined in arrival
  order, running it again from an empty accumulator on the state it produced changes
  nothing (no text is doubled), and on a fresh empty placeholder the final text is the
  joined chunks, the same on every run. This holds for the loop of \<^verbatim>\<open>part_001\<close>
  (which skips empty chunks) and for the one of \<^verbatim>\<open>part_000\<close>.
\<close>

theorem stream_chunks_set_not_append:
  "(let r1 = streamLoop aid chunks [] st; r2 = streamLoop aid chunks [] (snd r1)
    in fst r1 = joined chunks \<and> r2 = r1)
   \<and> (msg_id p = aid \<and> msg_text p = [] \<and> aid \<notin> msg_id ` set pre \<and> list_ex truthy chunks \<longrightarrow>
        messages (snd (streamLoop aid chunks [] (st\<lparr>messages := pre @ [p]\<rparr>)))
          = pre @ [p\<lparr>msg_text := joined chunks, isThinking := Some False\<rparr>])
   \<and> (let q1 = streamLoop_p0 aid chunks [] st; q2 = streamLoop_p0 aid chunks [] (snd q1)
      in fst q1 = joined_p0 chunks \<and> q2 = q1)
   \<and> (msg_id p = aid \<and> msg_text p = [] \<and> aid \<notin> msg_id ` set pre \<and> chunks \<noteq> [] \<longrightarrow>
        messages (snd (streamLoop_p0 aid chunks [] (st\<lparr>messages := pre @ [p]\<rparr>)))
          = pre @ [p\<lparr>msg_text := joined_p0 chunks, isThinking := Some False\<rparr>])"
proof -
  have a: "setText aid t (pre @ [p]) = pre @ [p\<lparr>msg_text := t, isThinking := Some False\<rparr>]"
    if "msg_id p = aid" "aid \<notin> msg_id ` set pre" for t
    using that setText_fresh [of aid pre t] by (simp add: setText_def)
  show ?thesis
    by (simp add: streamLoop_eq streamLoop_p0_eq Let_def setText_setText a)
qed

theorem stream_chunks_set_not_append_witness:
  "list_ex truthy [Some ''Hello'', None, Some [], Some '' world'']
   \<and> snd (streamLoop ''m2'' [Some ''Hello'', None, Some [], Some '' world''] []
        (snd (streamLoop ''m2'' [Some ''Hello'', None, Some [], Some '' world''] []
           (ex_state\<lparr>messages := [ex_msg, ex_msg\<lparr>msg_id := ''m2'', msg_text := []\<rparr>]\<rparr>))))
     = snd (streamLoop ''m2'' [Some ''Hello'', None, Some [], Some '' world''] []
           (ex_state\<lparr>messages := [ex_msg, ex_msg\<lparr>msg_id := ''m2'', msg_text := []\<rparr>]\<rparr>))
   \<and> map msg_text (messages (snd (streamLoop ''m2'' [Some ''Hello'', None, Some [], Some '' world''] []
        (ex_state\<lparr>messages := [ex_msg] @ [ex_msg\<lparr>msg_id := ''m2'', msg_text := []\<rparr>]\<rparr>))))
       = [''hi'', ''Hello world'']
   \<and> map msg_text (messages (snd (streamLoop_p0 ''m2'' [Some ''Hello'', None, Some [], Some '' world''] []
        (ex_state\<lparr>messages := [ex_msg] @ [ex_msg\<lparr>msg_id := ''m2'', msg_text := []\<rparr>]\<rparr>))))
       = [''hi'', ''Helloundefined world'']"
  using stream_chunks_set_not_append [of "''m2''" "[Some ''Hello'', None, Some [], Some '' world'']"
              "ex_state\<lparr>messages := [ex_msg, ex_msg\<lparr>msg_id := ''m2'', msg_text := []\<rparr>]\<rparr>"
              "ex_msg\<lparr>msg_id := ''m2'', msg_text := []\<rparr>" "[ex_msg]"]
  by (simp add: Let_def ex_msg_def ex_state_def joined_def joined_p0_def truthy_def)

section \<open>Truncation of the grounding document\<close>

text \<open>
  Claim C7. When \<^verbatim>\<open>handleSendMessage\<close> includes the active document, the system
  instruction of the request it sends is the master prompt, the context header with
  the name of the document, the document segment and the format clause, and the
  segment is \<^verbatim>\<open>content.substring(0, 30000)\<close>: exactly the first 30000 code units of a
  content longer than 30000, and the content itself when it has at most 30000. This
  holds for the streaming handler (\<^verbatim>\<open>part_001\<close> line 881) and the single-call handler
  (\<^verbatim>\<open>index.tsx\<close> line 614).
\<close>

theorem doc_segment_truncated:
  assumes key: "truthy (apiKey env)"
      and mp: "getMasterPrompt (backend st) (promptResult env) = Inr master"
      and doc: "find (\<lambda>d. Some (doc_id d) = activeDocId st) (docs st) = Some d"
      and inc: "case useActiveDoc opts of Some b \<Rightarrow> b | None \<Rightarrow> truthy (activeDocId st)"
  shows "(\<exists>st' q instruction.
            handleSendMessage (Some u) txt fmt opts env st = Inr st'
            \<and> requests st' = requests st @ [q]
            \<and> (fmt, instruction) \<in> set FORMAT_OPTIONS
            \<and> req_system q =
                 master @ [CHR 0x0A, CHR 0x0A] @ ''=== CONTEXT: '' @ doc_name d @ '' ===''
                   @ [CHR 0x0A]
                   @ (if length (content d) > 30000 then take 30000 (content d) else content d)
                   @ [CHR 0x0A, CHR 0x0A] @ ''FORMAT: '' @ instruction)
       \<and> (\<exists>st' q instruction.
            handleSendMessage_idx (Some u) txt fmt opts env st = Inr st'
            \<and> requests st' = requests st @ [q]
            \<and> (fmt, instruction) \<in> set FORMAT_OPTIONS
            \<and> req_system q =
                 master @ [CHR 0x0A, CHR 0x0A] @ ''=== CONTEXT: '' @ doc_name d @ '' ===''
                   @ [CHR 0x0A]
                   @ (if length (content d) > 30000 then take 30000 (content d) else content d)
                   @ [CHR 0x0A, CHR 0x0A] @ ''FORMAT: '' @ instruction)
       \<and> (length (content d) > 30000 \<longrightarrow> length (docSegment d) = 30000)
       \<and> docSegment d = (if length (content d) > 30000 then take 30000 (content d) else content d)"
proof -
  have seg: "docSegment d = (if length (content d) > 30000 then take 30000 (content d) else content d)"
    by (simp add: docSegment_def substring_0)
  obtain instruction where ins: "(fmt, instruction) \<in> set FORMAT_OPTIONS"
      "find (\<lambda>f. fst f = fmt) FORMAT_OPTIONS = Some (fmt, instruction)"
    by (cases fmt) (simp_all add: FORMAT_OPTIONS_def)
  have sys: "assembleSys master True (Some d) fmt =
                 master @ [CHR 0x0A, CHR 0x0A] @ ''=== CONTEXT: '' @ doc_name d @ '' ===''
                   @ [CHR 0x0A]
                   @ (if length (content d) > 30000 then take 30000 (content d) else content d)
                   @ [CHR 0x0A, CHR 0x0A] @ ''FORMAT: '' @ instruction"
    using seg ins(2) by (simp add: assembleSys_def)
  from inc have inc': "(case useActiveDoc opts of Some b \<Rightarrow> b | None \<Rightarrow> truthy (activeDocId st)) = True"
    by simp
  have a: "\<exists>st' q. handleSendMessage (Some u) txt fmt opts env st = Inr st'
            \<and> requests st' = requests st @ [q]
            \<and> req_system q = assembleSys master True (Some d) fmt"
    using handleSendMessage_sys [OF key mp, of u "txt" fmt opts] doc inc' by simp
  have b: "\<exists>st' q. handleSendMessage_idx (Some u) txt fmt opts env st = Inr st'
            \<and> requests st' = requests st @ [q]
            \<and> req_system q = assembleSys master True (Some d) fmt"
    using handleSendMessage_idx_sys [OF key mp, of u "txt" fmt opts] doc inc' by simp
  show ?thesis
    using a b sys ins(1) seg by (simp only:) auto
qed

theorem doc_segment_truncated_witness:
  "length (content (ex_doc\<lparr>content := replicate 30001 (CHR ''a'')\<rparr>)) > 30000
   \<and> req_system (last (requests (projr
         (handleSendMessage (Some ex_user) ''Summarise'' auto ex_opts ex_env2
            (ex_state\<lparr>docs := [ex_doc\<lparr>content := replicate 30001 (CHR ''a'')\<rparr>],
                       activeDocId := Some ''d1''\<rparr>)))))
       = DEFAULT_SYSTEM_INSTRUCTION @ [CHR 0x0A, CHR 0x0A] @ ''=== CONTEXT: syllabus.pdf ===''
           @ [CHR 0x0A] @ replicate 30000 (CHR ''a'')
           @ [CHR 0x0A, CHR 0x0A] @ ''FORMAT: Answer naturally.''
   \<and> req_system (last (requests (projr
         (handleSendMessage_idx (Some ex_user) ''Summarise'' auto ex_opts ex_env2
            (ex_state\<lparr>docs := [ex_doc], activeDocId := Some ''d1''\<rparr>)))))
       = DEFAULT_SYSTEM_INSTRUCTION @ [CHR 0x0A, CHR 0x0A] @ ''=== CONTEXT: syllabus.pdf ===''
           @ [CHR 0x0A] @ ''Week 1: fractions''
           @ [CHR 0x0A, CHR 0x0A] @ ''FORMAT: Answer naturally.''"
proof -
  let ?long = "ex_doc\<lparr>content := replicate 30001 (CHR ''a'')\<rparr>"
  let ?S = "ex_state\<lparr>docs := [?long], activeDocId := Some ''d1''\<rparr>"
  let ?T = "ex_state\<lparr>docs := [ex_doc], activeDocId := Some ''d1''\<rparr>"
  have key: "truthy (apiKey ex_env2)" by (simp add: ex_env2_def truthy_def)
  have mpS: "getMasterPrompt (backend ?S) (promptResult ex_env2) = Inr DEFAULT_SYSTEM_INSTRUCTION"
    by (simp add: getMasterPrompt_def ex_state_def ex_local_def)
  have mpT: "getMasterPrompt (backend ?T) (promptResult ex_env2) = Inr DEFAULT_SYSTEM_INSTRUCTION"
    by (simp add: getMasterPrompt_def ex_state_def ex_local_def)
  have docS: "find (\<lambda>d. Some (doc_id d) = activeDocId ?S) (docs ?S) = Some ?long"
    by (simp add: ex_doc_def)
  have docT: "find (\<lambda>d. Some (doc_id d) = activeDocId ?T) (docs ?T) = Some ex_doc"
    by (simp add: ex_doc_def)
  have incS: "case useActiveDoc ex_opts of Some b \<Rightarrow> b | None \<Rightarrow> truthy (activeDocId ?S)"
    by (simp add: ex_opts_def truthy_def)
  have incT: "case useActiveDoc ex_opts of Some b \<Rightarrow> b | None \<Rightarrow> truthy (activeDocId ?T)"
    by (simp add: ex_opts_def truthy_def)
  show ?thesis
    using doc_segment_truncated [OF key mpS docS incS, of ex_user "''Summarise''" auto]
          doc_segment_truncated [OF key mpT docT incT, of ex_user "''Summarise''" auto]
    by (auto simp: FORMAT_OPTIONS_def ex_doc_def)
qed

section \<open>Transcript round trip\<close>




section \<open>Suggestions after a completed turn\<close>



end
